theory Spec2Isabelle
  imports
    Complex_Main
    "HOL-Library.Word"
    "HOL-Library.Monad_Syntax"
    "HOL-Library.Char_ord"
    "HOL-Library.List_Lexorder"
begin

unbundle bit_operations_syntax

section \<open>Byte arrays and variants\<close>

text \<open>
  A \<open>QByteArray\<close> is a list of bytes. \<open>QByteArray::at(i)\<close> requires a valid index;
  the model returns \<open>None\<close> where the source reads outside the array. The buffer behind
  \<open>constData()\<close> carries one terminating zero byte after the data, so a raw read at
  index \<open>size\<close> yields 0 and only reads beyond it are undefined. (\<open>at'\<close> is
  \<open>QByteArray::at\<close>; the plain name is taken by a constant of the library.)
  Throughout, \<open>None\<close> stands for "the source has no defined result here".
\<close>

type_synonym QByteArray = "8 word list"

definition at' :: "QByteArray \<Rightarrow> nat \<Rightarrow> 8 word option" where
  "at' d i = (if i < length d then Some (d ! i) else None)"

definition constData :: "QByteArray \<Rightarrow> nat \<Rightarrow> 8 word option" where
  "constData d i =
     (if i < length d then Some (d ! i) else if i = length d then Some 0 else None)"

definition mid :: "QByteArray \<Rightarrow> nat \<Rightarrow> nat \<Rightarrow> QByteArray" where
  "mid d pos len = take len (drop pos d)"

definition midFrom :: "QByteArray \<Rightarrow> nat \<Rightarrow> QByteArray" where
  "midFrom d pos = drop pos d"

text \<open>Two bytes copied into a 16-bit variable and passed through \<open>qFromLittleEndian\<close>.\<close>

definition fromLittleEndian16 :: "8 word \<Rightarrow> 8 word \<Rightarrow> 16 word" where
  "fromLittleEndian16 b0 b1 = ucast b0 OR push_bit 8 (ucast b1)"

text \<open>Four bytes copied into a 32-bit variable and passed through \<open>qFromBigEndian\<close>.\<close>

definition fromBigEndian32 :: "8 word \<Rightarrow> 8 word \<Rightarrow> 8 word \<Rightarrow> 8 word \<Rightarrow> 32 word" where
  "fromBigEndian32 b0 b1 b2 b3 =
     push_bit 24 (ucast b0) OR push_bit 16 (ucast b1) OR push_bit 8 (ucast b2) OR ucast b3"

definition fromBigEndian16 :: "8 word \<Rightarrow> 8 word \<Rightarrow> 16 word" where
  "fromBigEndian16 b0 b1 = push_bit 8 (ucast b0) OR ucast b1"

text \<open>
  \<open>QVariant\<close>, restricted to the payload types the modelled parsers store. A
  \<open>QMap<QString, QVariant>\<close> is an association list kept sorted by key without
  duplicate keys, so that equal maps are equal lists. C++ \<open>double\<close> values are modelled
  by exact reals.
\<close>

datatype QVariant =
    Invalid
  | VBool bool
  | VInt int
  | VUInt "32 word"
  | VDouble real
  | VString string
  | VMap "(string \<times> QVariant) list"

fun qmap_insert :: "'k::linorder \<Rightarrow> 'v \<Rightarrow> ('k \<times> 'v) list \<Rightarrow> ('k \<times> 'v) list" where
  "qmap_insert k v [] = [(k, v)]"
| "qmap_insert k v ((k', v') # m) =
     (if k < k' then (k, v) # (k', v') # m
      else if k = k' then (k, v) # m
      else (k', v') # qmap_insert k v m)"

fun qmap_value :: "('k \<times> 'v) list \<Rightarrow> 'k \<Rightarrow> 'v option" where
  "qmap_value [] k = None"
| "qmap_value ((k', v) # m) k = (if k = k' then Some v else qmap_value m k)"

fun toMap :: "QVariant \<Rightarrow> (string \<times> QVariant) list" where
  "toMap (VMap m) = m"
| "toMap _ = []"

text \<open>
  \<open>QVariant::toInt\<close>, \<open>toBool\<close> and \<open>toDouble\<close> on the numeric payloads. The TUYA
  decoder below only ever passes \<open>Invalid\<close>, \<open>VBool\<close>, \<open>VInt\<close> or \<open>VUInt\<close> to them;
  strings and maps convert to 0 / false as a failed conversion does.
\<close>

fun toInt :: "QVariant \<Rightarrow> int" where
  "toInt (VBool b) = (if b then 1 else 0)"
| "toInt (VInt i) = i"
| "toInt (VUInt w) = sint w"
| "toInt (VDouble r) = (if 0 \<le> r then \<lfloor>r + 1 / 2\<rfloor> else \<lceil>r - 1 / 2\<rceil>)"
| "toInt _ = 0"

fun toBool :: "QVariant \<Rightarrow> bool" where
  "toBool (VBool b) = b"
| "toBool (VInt i) = (i \<noteq> 0)"
| "toBool (VUInt w) = (w \<noteq> 0)"
| "toBool (VDouble r) = (r \<noteq> 0)"
| "toBool _ = False"

fun toDouble :: "QVariant \<Rightarrow> real" where
  "toDouble (VBool b) = (if b then 1 else 0)"
| "toDouble (VInt i) = of_int i"
| "toDouble (VUInt w) = of_nat (unat w)"
| "toDouble (VDouble r) = r"
| "toDouble _ = 0"

section \<open>ZCL constants\<close>

text \<open>
  Modelled from the spec: the header \<open>zcl.h\<close> that declares the \<open>DATA_TYPE_*\<close>
  constants is not part of the sources at hand; the values are those listed in the
  specification's table of ZCL data types.
\<close>

definition DATA_TYPE_BOOLEAN :: "8 word" where "DATA_TYPE_BOOLEAN = 0x10"
definition DATA_TYPE_8BIT_BITMAP :: "8 word" where "DATA_TYPE_8BIT_BITMAP = 0x18"
definition DATA_TYPE_8BIT_UNSIGNED :: "8 word" where "DATA_TYPE_8BIT_UNSIGNED = 0x20"
definition DATA_TYPE_16BIT_UNSIGNED :: "8 word" where "DATA_TYPE_16BIT_UNSIGNED = 0x21"
definition DATA_TYPE_32BIT_UNSIGNED :: "8 word" where "DATA_TYPE_32BIT_UNSIGNED = 0x23"
definition DATA_TYPE_16BIT_SIGNED :: "8 word" where "DATA_TYPE_16BIT_SIGNED = 0x29"
definition DATA_TYPE_32BIT_SIGNED :: "8 word" where "DATA_TYPE_32BIT_SIGNED = 0x2B"
definition DATA_TYPE_8BIT_ENUM :: "8 word" where "DATA_TYPE_8BIT_ENUM = 0x30"
definition DATA_TYPE_SINGLE_PRECISION :: "8 word" where "DATA_TYPE_SINGLE_PRECISION = 0x39"
definition DATA_TYPE_OCTET_STRING :: "8 word" where "DATA_TYPE_OCTET_STRING = 0x41"
definition DATA_TYPE_CHARACTER_STRING :: "8 word" where "DATA_TYPE_CHARACTER_STRING = 0x42"
definition DATA_TYPE_UTC_TIME :: "8 word" where "DATA_TYPE_UTC_TIME = 0xE2"
definition DATA_TYPE_IEEE_ADDRESS :: "8 word" where "DATA_TYPE_IEEE_ADDRESS = 0xF0"

section \<open>Property parsers (property.cpp)\<close>

text \<open>
  The polymorphic \<open>PropertyObject\<close> becomes a record carrying a tag for its dynamic
  class; the virtual \<open>parseAttribte\<close> / \<open>parseCommand\<close> dispatch on the tag. The
  variants modelled are those whose parsers work on integers, booleans and strings;
  variants that decode IEEE floats from the wire or keep extra members are left out.
\<close>

datatype PropertyKind =
    BatteryVoltage
  | Status
  | Contact
  | PowerOnStatus
  | Level
  | ColorTemperature
  | Occupancy
  | IdentifyAction
  | SwitchAction
  | LevelAction
  | IAS_ZoneStatus
  | PTVO_ChangePattern
  | PTVO_SwitchAction
  | LUMI_ButtonAction
  | LUMI_SwitchAction
  | LUMI_CubeMovement
  | LUMI_Unknown
  | TUYA_NeoSiren
  | TUYA_PresenceSensor
  | TUYA_PowerOnStatus
  | TUYA_SwitchType
  | TUYA_Unknown
  | KonkeButtonAction

record PropertyObject =
  kind :: PropertyKind
  m_name :: string
  m_clusterId :: "16 word"
  m_value :: QVariant

text \<open>
  \<open>PropertyObject::percentage\<close>: clip, scale, and truncate by the cast to \<open>quint8\<close>.
  The result lies between 0 and 100 whenever \<open>min < max\<close>, so the cast only drops the
  fraction.
\<close>

definition percentage :: "real \<Rightarrow> real \<Rightarrow> real \<Rightarrow> 8 word" where
  "percentage min_v max_v value =
     (let value = (if value < min_v then min_v else value);
          value = (if value > max_v then max_v else value)
      in word_of_int \<lfloor>(value - min_v) / (max_v - min_v) * 100\<rfloor>)"

definition BatteryVoltage_parseAttribte ::
  "PropertyObject \<Rightarrow> 16 word \<Rightarrow> 8 word \<Rightarrow> QByteArray \<Rightarrow> PropertyObject option" where
  "BatteryVoltage_parseAttribte p attributeId dataType data =
     (if attributeId \<noteq> 0x0020 \<or> dataType \<noteq> DATA_TYPE_8BIT_UNSIGNED \<or> length data \<noteq> 1
      then Some p
      else do {
        b \<leftarrow> at' data 0;
        Some (p\<lparr>m_value := VInt (uint (percentage 2850 3200 (of_int (uint b * 100))))\<rparr>)
      })"


definition Status_parseAttribte ::
  "PropertyObject \<Rightarrow> 16 word \<Rightarrow> 8 word \<Rightarrow> QByteArray \<Rightarrow> PropertyObject option" where
  "Status_parseAttribte p attributeId dataType data =
     (if attributeId \<noteq> 0x0000
         \<or> (dataType \<noteq> DATA_TYPE_BOOLEAN \<and> dataType \<noteq> DATA_TYPE_8BIT_UNSIGNED)
         \<or> length data \<noteq> 1
      then Some p
      else do {
        b \<leftarrow> at' data 0;
        Some (p\<lparr>m_value := VString (if b \<noteq> 0 then ''on'' else ''off'')\<rparr>)
      })"

definition Contact_parseAttribte ::
  "PropertyObject \<Rightarrow> 16 word \<Rightarrow> 8 word \<Rightarrow> QByteArray \<Rightarrow> PropertyObject option" where
  "Contact_parseAttribte p attributeId dataType data =
     (if attributeId \<noteq> 0x0000 \<or> dataType \<noteq> DATA_TYPE_BOOLEAN \<or> length data \<noteq> 1
      then Some p
      else do {
        b \<leftarrow> at' data 0;
        Some (p\<lparr>m_value := VBool (b \<noteq> 0)\<rparr>)
      })"

definition PowerOnStatus_parseAttribte ::
  "PropertyObject \<Rightarrow> 16 word \<Rightarrow> 8 word \<Rightarrow> QByteArray \<Rightarrow> PropertyObject option" where
  "PowerOnStatus_parseAttribte p attributeId dataType data =
     (if attributeId \<noteq> 0x4003 \<or> dataType \<noteq> DATA_TYPE_8BIT_ENUM \<or> length data \<noteq> 1
      then Some p
      else do {
        b \<leftarrow> at' data 0;
        Some (if b = 0x00 then p\<lparr>m_value := VString ''off''\<rparr>
              else if b = 0x01 then p\<lparr>m_value := VString ''on''\<rparr>
              else if b = 0x02 then p\<lparr>m_value := VString ''toggle''\<rparr>
              else if b = 0xFF then p\<lparr>m_value := VString ''previous''\<rparr>
              else p)
      })"

definition Level_parseAttribte ::
  "PropertyObject \<Rightarrow> 16 word \<Rightarrow> 8 word \<Rightarrow> QByteArray \<Rightarrow> PropertyObject option" where
  "Level_parseAttribte p attributeId dataType data =
     (if attributeId \<noteq> 0x0000 \<or> dataType \<noteq> DATA_TYPE_8BIT_UNSIGNED \<or> length data \<noteq> 1
      then Some p
      else do {
        b \<leftarrow> at' data 0;
        Some (p\<lparr>m_value := VInt (uint b)\<rparr>)
      })"

text \<open>The source copies the two bytes into a \<open>qint16\<close>, so the stored value is signed.\<close>

definition ColorTemperature_parseAttribte ::
  "PropertyObject \<Rightarrow> 16 word \<Rightarrow> 8 word \<Rightarrow> QByteArray \<Rightarrow> PropertyObject option" where
  "ColorTemperature_parseAttribte p attributeId dataType data =
     (if attributeId \<noteq> 0x0007 \<or> dataType \<noteq> DATA_TYPE_16BIT_UNSIGNED \<or> length data \<noteq> 2
      then Some p
      else do {
        b0 \<leftarrow> constData data 0;
        b1 \<leftarrow> constData data 1;
        Some (p\<lparr>m_value := VInt (sint (fromLittleEndian16 b0 b1))\<rparr>)
      })"

definition Occupancy_parseAttribte ::
  "PropertyObject \<Rightarrow> 16 word \<Rightarrow> 8 word \<Rightarrow> QByteArray \<Rightarrow> PropertyObject option" where
  "Occupancy_parseAttribte p attributeId dataType data =
     (if attributeId \<noteq> 0x0000 \<or> dataType \<noteq> DATA_TYPE_8BIT_BITMAP \<or> length data \<noteq> 1
      then Some p
      else do {
        b \<leftarrow> at' data 0;
        Some (p\<lparr>m_value := VBool (b \<noteq> 0)\<rparr>)
      })"

definition IdentifyAction_parseCommand ::
  "PropertyObject \<Rightarrow> 8 word \<Rightarrow> QByteArray \<Rightarrow> PropertyObject option" where
  "IdentifyAction_parseCommand p commandId payload =
     (if commandId \<noteq> 0x01 then Some p else Some (p\<lparr>m_value := VString ''identify''\<rparr>))"

definition SwitchAction_parseCommand ::
  "PropertyObject \<Rightarrow> 8 word \<Rightarrow> QByteArray \<Rightarrow> PropertyObject option" where
  "SwitchAction_parseCommand p commandId payload =
     Some (if commandId = 0x00 then p\<lparr>m_value := VString ''off''\<rparr>
           else if commandId = 0x01 then p\<lparr>m_value := VString ''on''\<rparr>
           else if commandId = 0x02 then p\<lparr>m_value := VString ''toggle''\<rparr>
           else p)"

definition LevelAction_parseCommand ::
  "PropertyObject \<Rightarrow> 8 word \<Rightarrow> QByteArray \<Rightarrow> PropertyObject option" where
  "LevelAction_parseCommand p commandId payload =
     Some (if commandId = 0x01 then p\<lparr>m_value := VString ''moveDown''\<rparr>
           else if commandId = 0x05 then p\<lparr>m_value := VString ''moveUp''\<rparr>
           else if commandId = 0x07 then p\<lparr>m_value := VString ''moveStop''\<rparr>
           else p)"

definition ZoneStatus_parseCommand ::
  "PropertyObject \<Rightarrow> 8 word \<Rightarrow> QByteArray \<Rightarrow> PropertyObject option" where
  "ZoneStatus_parseCommand p commandId payload =
     (let map = toMap (m_value p) in
      if commandId \<noteq> 0x00 then Some p
      else do {
        b0 \<leftarrow> constData payload 0;
        b1 \<leftarrow> constData payload 1;
        let value = fromLittleEndian16 b0 b1;
        let map = qmap_insert (m_name p) (VBool (value AND 0x0001 \<noteq> 0)) map;
        let map = (if value AND 0x0004 \<noteq> 0 then qmap_insert ''tamper'' (VBool True) map else map);
        let map = (if value AND 0x0008 \<noteq> 0 then qmap_insert ''batteryLow'' (VBool True) map else map);
        Some (p\<lparr>m_value := VMap map\<rparr>)
      })"

definition PTVO_ChangePattern_parseAttribte ::
  "PropertyObject \<Rightarrow> 16 word \<Rightarrow> 8 word \<Rightarrow> QByteArray \<Rightarrow> PropertyObject option" where
  "PTVO_ChangePattern_parseAttribte p attributeId dataType data =
     (if attributeId \<noteq> 0x0000 \<or> dataType \<noteq> DATA_TYPE_BOOLEAN \<or> length data \<noteq> 1
      then Some p
      else do {
        b \<leftarrow> at' data 0;
        Some (p\<lparr>m_value := VString (if b \<noteq> 0 then ''on'' else ''off'')\<rparr>)
      })"

definition PTVO_SwitchAction_parseAttribte ::
  "PropertyObject \<Rightarrow> 16 word \<Rightarrow> 8 word \<Rightarrow> QByteArray \<Rightarrow> PropertyObject option" where
  "PTVO_SwitchAction_parseAttribte p attributeId dataType data =
     (if attributeId \<noteq> 0x0055 \<or> dataType \<noteq> DATA_TYPE_8BIT_UNSIGNED \<or> length data \<noteq> 1
      then Some p
      else do {
        b \<leftarrow> at' data 0;
        Some (p\<lparr>m_value := VString (if b \<noteq> 0 then ''on'' else ''off'')\<rparr>)
      })"

definition LUMI_ButtonAction_parseAttribte ::
  "PropertyObject \<Rightarrow> 16 word \<Rightarrow> 8 word \<Rightarrow> QByteArray \<Rightarrow> PropertyObject option" where
  "LUMI_ButtonAction_parseAttribte p attributeId dataType data =
     (if ((attributeId \<noteq> 0x0000 \<or> dataType \<noteq> DATA_TYPE_BOOLEAN)
           \<and> (attributeId \<noteq> 0x8000 \<or> dataType \<noteq> DATA_TYPE_8BIT_UNSIGNED))
         \<or> length data \<noteq> 1
      then Some p
      else do {
        b \<leftarrow> at' data 0;
        Some (if b = 0x00 then p\<lparr>m_value := VString ''on''\<rparr>
              else if b = 0x01 then p\<lparr>m_value := VString ''off''\<rparr>
              else if b = 0x02 then p\<lparr>m_value := VString ''doubleClick''\<rparr>
              else if b = 0x03 then p\<lparr>m_value := VString ''tripleClick''\<rparr>
              else if b = 0x04 then p\<lparr>m_value := VString ''quadrupleClick''\<rparr>
              else if b = 0x80 then p\<lparr>m_value := VString ''multipleClick''\<rparr>
              else p)
      })"

definition LUMI_SwitchAction_parseAttribte ::
  "PropertyObject \<Rightarrow> 16 word \<Rightarrow> 8 word \<Rightarrow> QByteArray \<Rightarrow> PropertyObject option" where
  "LUMI_SwitchAction_parseAttribte p attributeId dataType data =
     (if attributeId \<noteq> 0x0055 \<or> dataType \<noteq> DATA_TYPE_16BIT_UNSIGNED \<or> length data \<noteq> 2
      then Some p
      else do {
        b0 \<leftarrow> constData data 0;
        b1 \<leftarrow> constData data 1;
        let value = sint (fromLittleEndian16 b0 b1);
        Some (if value = 0x0000 then p\<lparr>m_value := VString ''longClick''\<rparr>
              else if value = 0x0001 then p\<lparr>m_value := VString ''singleClick''\<rparr>
              else if value = 0x0002 then p\<lparr>m_value := VString ''doubleClick''\<rparr>
              else if value = 0x0003 then p\<lparr>m_value := VString ''tripleClick''\<rparr>
              else if value = 0x00FF then p\<lparr>m_value := VString ''release''\<rparr>
              else p)
      })"

text \<open>
  \<open>PropertiesLUMI::CubeMovement\<close>: the local \<open>value\<close> is a \<open>qint16\<close>, so the
  comparisons are signed.
\<close>

definition LUMI_CubeMovement_parseAttribte ::
  "PropertyObject \<Rightarrow> 16 word \<Rightarrow> 8 word \<Rightarrow> QByteArray \<Rightarrow> PropertyObject option" where
  "LUMI_CubeMovement_parseAttribte p attributeId dataType data =
     (if attributeId \<noteq> 0x0055 \<or> dataType \<noteq> DATA_TYPE_16BIT_UNSIGNED \<or> length data \<noteq> 2
      then Some p
      else do {
        b0 \<leftarrow> constData data 0;
        b1 \<leftarrow> constData data 1;
        let value = sint (fromLittleEndian16 b0 b1);
        Some (if value = 0 then p\<lparr>m_value := VString ''shake''\<rparr>
              else if value = 2 then p\<lparr>m_value := VString ''wake''\<rparr>
              else if value = 3 then p\<lparr>m_value := VString ''fall''\<rparr>
              else if value \<ge> 512 then p\<lparr>m_value := VString ''tap''\<rparr>
              else if value \<ge> 256 then p\<lparr>m_value := VString ''slide''\<rparr>
              else if value \<ge> 128 then p\<lparr>m_value := VString ''flip''\<rparr>
              else if value \<ge> 64 then p\<lparr>m_value := VString ''drop''\<rparr>
              else p)
      })"

definition Unknown_parseAttribte ::
  "PropertyObject \<Rightarrow> 16 word \<Rightarrow> 8 word \<Rightarrow> QByteArray \<Rightarrow> PropertyObject option" where
  "Unknown_parseAttribte p attributeId dataType data = Some p"


subsection \<open>TUYA data points\<close>

text \<open>
  Modelled from the spec: \<open>tuyaHeaderStruct\<close> is declared in \<open>property.h\<close>, which is
  not part of the sources at hand. The specification names its fields: status,
  transactionId, dataPoint, dataType and a length. The source overlays the struct on the
  payload buffer, reads \<open>dataType\<close>, \<open>length\<close> and \<open>dataPoint\<close> where it uses them,
  and compares \<open>header->length\<close> with 1 and 4 as the host reads the field, without a
  byte-order conversion. Where the fields lie in the buffer, and how wide the length is,
  is a parameter of the model: each reader yields the value the host reads for its
  field, or \<open>None\<close> where the read leaves the buffer.
\<close>

record tuyaHeaderLayout =
  sizeof_tuyaHeaderStruct :: nat
  tuyaHeader_dataPoint :: "QByteArray \<Rightarrow> 8 word option"
  tuyaHeader_dataType :: "QByteArray \<Rightarrow> 8 word option"
  tuyaHeader_length :: "QByteArray \<Rightarrow> nat option"

text \<open>
  \<open>PropertiesTUYA::Data::parseData\<close>; \<open>header\<close> is the payload the struct overlays.
  With length 4 the \<open>memcpy\<close> takes four bytes of \<open>data\<close>.
\<close>

definition TUYA_Data_parseData ::
  "tuyaHeaderLayout \<Rightarrow> QByteArray \<Rightarrow> QByteArray \<Rightarrow> QVariant option" where
  "TUYA_Data_parseData T header data =
     do {
       dataType \<leftarrow> tuyaHeader_dataType T header;
       if dataType = 0x01 then do {
         len \<leftarrow> tuyaHeader_length T header;
         if len = 1 then do { b \<leftarrow> at' data 0; Some (VBool (b \<noteq> 0)) } else Some Invalid
       }
       else if dataType = 0x02 then do {
         len \<leftarrow> tuyaHeader_length T header;
         if len = 4 then do {
           b0 \<leftarrow> constData data 0;
           b1 \<leftarrow> constData data 1;
           b2 \<leftarrow> constData data 2;
           b3 \<leftarrow> constData data 3;
           Some (VUInt (fromBigEndian32 b0 b1 b2 b3))
         } else Some Invalid
       }
       else if dataType = 0x04 then do {
         len \<leftarrow> tuyaHeader_length T header;
         if len = 1 then do { b \<leftarrow> at' data 0; Some (VInt (uint b)) } else Some Invalid
       }
       else Some Invalid
     }"

text \<open>\<open>QList::at\<close> needs a valid index, as \<open>QByteArray::at\<close> does.\<close>

definition QList_at :: "'a list \<Rightarrow> int \<Rightarrow> 'a option" where
  "QList_at xs i = (if 0 \<le> i \<and> i < int (length xs) then Some (xs ! nat i) else None)"

definition NeoSiren_update :: "PropertyObject \<Rightarrow> 8 word \<Rightarrow> QVariant \<Rightarrow> PropertyObject option" where
  "NeoSiren_update p dataPoint data =
     do {
       let map = toMap (m_value p);
       map \<leftarrow>
         (if dataPoint = 0x05 then do {
            v \<leftarrow> QList_at [''low'', ''medium'', ''high''] (toInt data);
            Some (qmap_insert ''volume'' (VString v) map)
          }
          else if dataPoint = 0x07 then Some (qmap_insert ''duration'' (VInt (toInt data)) map)
          else if dataPoint = 0x0D then Some (qmap_insert ''alarm'' (VBool (toBool data)) map)
          else if dataPoint = 0x0F then Some (qmap_insert ''battery'' (VInt (toInt data)) map)
          else if dataPoint = 0x15 then Some (qmap_insert ''melody'' (VInt (toInt data)) map)
          else Some map);
       if map = [] then Some p else Some (p\<lparr>m_value := VMap map\<rparr>)
     }"

definition PresenceSensor_update ::
  "PropertyObject \<Rightarrow> 8 word \<Rightarrow> QVariant \<Rightarrow> PropertyObject option" where
  "PresenceSensor_update p dataPoint data =
     (let map = toMap (m_value p);
          map =
            (if dataPoint = 0x01 then qmap_insert ''occupancy'' (VBool (toBool data)) map
             else if dataPoint = 0x02 then qmap_insert ''sensitivity'' (VInt (toInt data)) map
             else if dataPoint = 0x03
               then qmap_insert ''distanceMin'' (VDouble (toDouble data / 100)) map
             else if dataPoint = 0x04
               then qmap_insert ''distanceMax'' (VDouble (toDouble data / 100)) map
             else if dataPoint = 0x65
               then qmap_insert ''detectionDelay'' (VInt (toInt data)) map
             else if dataPoint = 0x68 then qmap_insert ''illuminance'' (VInt (toInt data)) map
             else map)
      in if map = [] then Some p else Some (p\<lparr>m_value := VMap map\<rparr>))"

text \<open>
  \<open>PropertiesTUYA::Data::parseCommand\<close>, with the virtual \<open>update\<close> of the subclass
  passed in.
\<close>

definition TUYA_Data_parseCommand ::
  "tuyaHeaderLayout \<Rightarrow> (PropertyObject \<Rightarrow> 8 word \<Rightarrow> QVariant \<Rightarrow> PropertyObject option) \<Rightarrow>
   PropertyObject \<Rightarrow> 8 word \<Rightarrow> QByteArray \<Rightarrow> PropertyObject option" where
  "TUYA_Data_parseCommand T update p commandId payload =
     (if commandId \<noteq> 0x01 \<and> commandId \<noteq> 0x02 then Some p
      else do {
        data \<leftarrow> TUYA_Data_parseData T payload (midFrom payload (sizeof_tuyaHeaderStruct T));
        if data = Invalid then Some p
        else do {
          dataPoint \<leftarrow> tuyaHeader_dataPoint T payload;
          update p dataPoint data
        }
      })"

definition TUYA_PowerOnStatus_parseAttribte ::
  "PropertyObject \<Rightarrow> 16 word \<Rightarrow> 8 word \<Rightarrow> QByteArray \<Rightarrow> PropertyObject option" where
  "TUYA_PowerOnStatus_parseAttribte p attributeId dataType data =
     (if attributeId \<noteq> 0x8002 \<or> dataType \<noteq> DATA_TYPE_8BIT_ENUM \<or> length data \<noteq> 1
      then Some p
      else do {
        b \<leftarrow> at' data 0;
        Some (if b = 0x00 then p\<lparr>m_value := VString ''off''\<rparr>
              else if b = 0x01 then p\<lparr>m_value := VString ''on''\<rparr>
              else if b = 0x02 then p\<lparr>m_value := VString ''previous''\<rparr>
              else p)
      })"

definition TUYA_SwitchType_parseAttribte ::
  "PropertyObject \<Rightarrow> 16 word \<Rightarrow> 8 word \<Rightarrow> QByteArray \<Rightarrow> PropertyObject option" where
  "TUYA_SwitchType_parseAttribte p attributeId dataType data =
     (if attributeId \<noteq> 0x0030 \<or> dataType \<noteq> DATA_TYPE_8BIT_ENUM \<or> length data \<noteq> 1
      then Some p
      else do {
        b \<leftarrow> at' data 0;
        Some (if b = 0x00 then p\<lparr>m_value := VString ''toggle''\<rparr>
              else if b = 0x01 then p\<lparr>m_value := VString ''state''\<rparr>
              else if b = 0x02 then p\<lparr>m_value := VString ''momentary''\<rparr>
              else p)
      })"

subsection \<open>Konke button\<close>

text \<open>
  \<open>PropertiesOther::KonkeButtonAction\<close>: the guard joins its two tests with \<open>&&\<close> and
  has no length test, so \<open>data.at(0)\<close> is reached with any data whenever the attribute
  is 0x0000 or the type is boolean.
\<close>

definition KonkeButtonAction_parseAttribte ::
  "PropertyObject \<Rightarrow> 16 word \<Rightarrow> 8 word \<Rightarrow> QByteArray \<Rightarrow> PropertyObject option" where
  "KonkeButtonAction_parseAttribte p attributeId dataType data =
     (if attributeId \<noteq> 0x0000 \<and> dataType \<noteq> DATA_TYPE_BOOLEAN
      then Some p
      else do {
        b \<leftarrow> at' data 0;
        Some (if b = 0x80 then p\<lparr>m_value := VString ''singleClick''\<rparr>
              else if b = 0x81 then p\<lparr>m_value := VString ''doubleClick''\<rparr>
              else if b = 0x82 then p\<lparr>m_value := VString ''longClick''\<rparr>
              else p)
      })"

subsection \<open>Virtual dispatch\<close>

text \<open>
  Modelled from the spec: the base class in \<open>property.h\<close> is not part of the sources at
  hand. A variant exposes \<open>parseAttribte\<close> and/or \<open>parseCommand\<close>; the one it does not
  override does nothing. \<open>parseCommand\<close> carries the layout of the TUYA header that
  the TUYA variants read.
\<close>

definition parseAttribte ::
  "PropertyObject \<Rightarrow> 16 word \<Rightarrow> 8 word \<Rightarrow> QByteArray \<Rightarrow> PropertyObject option" where
  "parseAttribte p attributeId dataType data =
     (case kind p of
        BatteryVoltage \<Rightarrow> BatteryVoltage_parseAttribte p attributeId dataType data
      | Status \<Rightarrow> Status_parseAttribte p attributeId dataType data
      | Contact \<Rightarrow> Contact_parseAttribte p attributeId dataType data
      | PowerOnStatus \<Rightarrow> PowerOnStatus_parseAttribte p attributeId dataType data
      | Level \<Rightarrow> Level_parseAttribte p attributeId dataType data
      | ColorTemperature \<Rightarrow> ColorTemperature_parseAttribte p attributeId dataType data
      | Occupancy \<Rightarrow> Occupancy_parseAttribte p attributeId dataType data
      | PTVO_ChangePattern \<Rightarrow> PTVO_ChangePattern_parseAttribte p attributeId dataType data
      | PTVO_SwitchAction \<Rightarrow> PTVO_SwitchAction_parseAttribte p attributeId dataType data
      | LUMI_ButtonAction \<Rightarrow> LUMI_ButtonAction_parseAttribte p attributeId dataType data
      | LUMI_SwitchAction \<Rightarrow> LUMI_SwitchAction_parseAttribte p attributeId dataType data
      | LUMI_CubeMovement \<Rightarrow> LUMI_CubeMovement_parseAttribte p attributeId dataType data
      | LUMI_Unknown \<Rightarrow> Unknown_parseAttribte p attributeId dataType data
      | TUYA_PowerOnStatus \<Rightarrow> TUYA_PowerOnStatus_parseAttribte p attributeId dataType data
      | TUYA_SwitchType \<Rightarrow> TUYA_SwitchType_parseAttribte p attributeId dataType data
      | TUYA_Unknown \<Rightarrow> Unknown_parseAttribte p attributeId dataType data
      | KonkeButtonAction \<Rightarrow> KonkeButtonAction_parseAttribte p attributeId dataType data
      | _ \<Rightarrow> Some p)"

definition parseCommand ::
  "tuyaHeaderLayout \<Rightarrow> PropertyObject \<Rightarrow> 8 word \<Rightarrow> QByteArray \<Rightarrow> PropertyObject option" where
  "parseCommand T p commandId payload =
     (case kind p of
        IdentifyAction \<Rightarrow> IdentifyAction_parseCommand p commandId payload
      | SwitchAction \<Rightarrow> SwitchAction_parseCommand p commandId payload
      | LevelAction \<Rightarrow> LevelAction_parseCommand p commandId payload
      | IAS_ZoneStatus \<Rightarrow> ZoneStatus_parseCommand p commandId payload
      | TUYA_NeoSiren \<Rightarrow> TUYA_Data_parseCommand T NeoSiren_update p commandId payload
      | TUYA_PresenceSensor \<Rightarrow>
          TUYA_Data_parseCommand T PresenceSensor_update p commandId payload
      | _ \<Rightarrow> Some p)"

text \<open>
  The contract each variant declares for its attribute frames, following the
  specification's words: an exact triple of attribute id, data type and payload length.
  The Konke button is listed with the triple its siblings use for a boolean attribute.
  Variants without an attribute parser accept nothing.
\<close>

definition contract :: "PropertyKind \<Rightarrow> 16 word \<Rightarrow> 8 word \<Rightarrow> nat \<Rightarrow> bool" where
  "contract k attributeId dataType len =
     (case k of
        BatteryVoltage \<Rightarrow> attributeId = 0x0020 \<and> dataType = DATA_TYPE_8BIT_UNSIGNED \<and> len = 1
      | Status \<Rightarrow>
          attributeId = 0x0000
          \<and> (dataType = DATA_TYPE_BOOLEAN \<or> dataType = DATA_TYPE_8BIT_UNSIGNED) \<and> len = 1
      | Contact \<Rightarrow> attributeId = 0x0000 \<and> dataType = DATA_TYPE_BOOLEAN \<and> len = 1
      | PowerOnStatus \<Rightarrow> attributeId = 0x4003 \<and> dataType = DATA_TYPE_8BIT_ENUM \<and> len = 1
      | Level \<Rightarrow> attributeId = 0x0000 \<and> dataType = DATA_TYPE_8BIT_UNSIGNED \<and> len = 1
      | ColorTemperature \<Rightarrow>
          attributeId = 0x0007 \<and> dataType = DATA_TYPE_16BIT_UNSIGNED \<and> len = 2
      | Occupancy \<Rightarrow> attributeId = 0x0000 \<and> dataType = DATA_TYPE_8BIT_BITMAP \<and> len = 1
      | PTVO_ChangePattern \<Rightarrow> attributeId = 0x0000 \<and> dataType = DATA_TYPE_BOOLEAN \<and> len = 1
      | PTVO_SwitchAction \<Rightarrow>
          attributeId = 0x0055 \<and> dataType = DATA_TYPE_8BIT_UNSIGNED \<and> len = 1
      | LUMI_ButtonAction \<Rightarrow>
          ((attributeId = 0x0000 \<and> dataType = DATA_TYPE_BOOLEAN)
            \<or> (attributeId = 0x8000 \<and> dataType = DATA_TYPE_8BIT_UNSIGNED)) \<and> len = 1
      | LUMI_SwitchAction \<Rightarrow>
          attributeId = 0x0055 \<and> dataType = DATA_TYPE_16BIT_UNSIGNED \<and> len = 2
      | LUMI_CubeMovement \<Rightarrow>
          attributeId = 0x0055 \<and> dataType = DATA_TYPE_16BIT_UNSIGNED \<and> len = 2
      | TUYA_PowerOnStatus \<Rightarrow>
          attributeId = 0x8002 \<and> dataType = DATA_TYPE_8BIT_ENUM \<and> len = 1
      | TUYA_SwitchType \<Rightarrow> attributeId = 0x0030 \<and> dataType = DATA_TYPE_8BIT_ENUM \<and> len = 1
      | KonkeButtonAction \<Rightarrow> attributeId = 0x0000 \<and> dataType = DATA_TYPE_BOOLEAN \<and> len = 1
      | _ \<Rightarrow> False)"

text \<open>
  The specification's reading of the battery mapping: millivolts mapped linearly from
  2850..3200 onto 0..100, clipped at both ends, as a whole number of percent.
\<close>

definition linear_percent_clipped :: "int \<Rightarrow> int" where
  "linear_percent_clipped mv =
     (if mv \<le> 2850 then 0 else if mv \<ge> 3200 then 100 else (mv - 2850) * 100 div 350)"


section \<open>Device model and engine state (zigbee.cpp)\<close>

text \<open>
  Modelled from the spec: the frame-control bits, the cluster ids and the success status
  are declared in \<open>zcl.h\<close>, which is not part of the sources at hand; the specification
  lists their values (external interfaces; "success status 0").
\<close>

definition FC_CLUSTER_SPECIFIC :: "8 word" where "FC_CLUSTER_SPECIFIC = 0x01"
definition FC_MANUFACTURER_SPECIFIC :: "8 word" where "FC_MANUFACTURER_SPECIFIC = 0x04"
definition FC_SERVER_TO_CLIENT :: "8 word" where "FC_SERVER_TO_CLIENT = 0x08"
definition FC_DISABLE_DEFAULT_RESPONSE :: "8 word" where "FC_DISABLE_DEFAULT_RESPONSE = 0x10"

definition CLUSTER_BASIC :: "16 word" where "CLUSTER_BASIC = 0x0000"
definition CLUSTER_GROUPS :: "16 word" where "CLUSTER_GROUPS = 0x0004"
definition CLUSTER_TIME :: "16 word" where "CLUSTER_TIME = 0x000A"
definition CLUSTER_OTA_UPGRADE :: "16 word" where "CLUSTER_OTA_UPGRADE = 0x0019"
definition CLUSTER_IAS_ZONE :: "16 word" where "CLUSTER_IAS_ZONE = 0x0500"

definition STATUS_SUCCESS :: "8 word" where "STATUS_SUCCESS = 0x00"

datatype LogicalType = Coordinator | Router | EndDevice

datatype ZoneStatus = Unknown | SetAddress | Enroll | Enrolled

datatype RequestType = Binding | Data | Remove | LQI | Interview

datatype RequestStatus = Pending | Sent | Finished | Aborted

record ReportingObject =
  r_name :: string
  r_clusterId :: "16 word"
  r_dataType :: "8 word"
  r_attributes :: "16 word list"
  r_minInterval :: "16 word"
  r_maxInterval :: "16 word"
  r_valueChange :: "16 word"

record EndpointObject =
  e_id :: "8 word"
  inClusters :: "16 word list"
  outClusters :: "16 word list"
  zoneStatus :: ZoneStatus
  e_descriptorReceived :: bool
  updated :: bool
  properties :: "PropertyObject list"
  reportings :: "ReportingObject list"

text \<open>
  A \<open>QString\<close> is a sequence of UTF-16 code units (\<open>QChar\<close>). The manufacturer and
  model name of a device are decoded from attribute payloads and are modelled as such;
  a string literal of the source converts to the code units of its ASCII characters.
  Texts that never come from a payload (display names, property names, log reasons) are
  left as plain strings.
\<close>

type_synonym QChar = "16 word"

type_synonym QString = "QChar list"

definition QString_literal :: "string \<Rightarrow> QString" where
  "QString_literal t = map (\<lambda>c. of_nat (of_char c)) t"

text \<open>
  \<open>DeviceObject\<close>. \<open>endpoints\<close> is a \<open>QMap<quint8, Endpoint>\<close>, kept sorted by key;
  \<open>timer\<close> holds whether the device's interview timer is active. Time stamps
  (\<open>updateLastSeen\<close>) and the neighbour table are not modelled.
\<close>

record DeviceObject =
  ieeeAddress :: QByteArray
  networkAddress :: "16 word"
  name :: string
  manufacturerName :: QString
  modelName :: QString
  version :: "8 word"
  powerSource :: "8 word"
  logicalType :: LogicalType
  descriptorReceived :: bool
  endpointsReceived :: bool
  interviewFinished :: bool
  removed :: bool
  interviewEndpointId :: "8 word"
  timer :: bool
  endpoints :: "(8 word \<times> EndpointObject) list"
  linkQuality :: "8 word"

text \<open>
  \<open>Device\<close> is a shared pointer: the catalogue, the requests and the endpoints refer to
  the same object. Objects live in a store indexed by addresses; an endpoint is named
  by its device and its key in that device's endpoint map.
\<close>

type_synonym Device = nat

type_synonym Endpoint = "Device \<times> 8 word"

record BindingRequestObject =
  b_device :: Device
  b_endpointId :: "8 word"
  b_clusterId :: "16 word"
  b_dstAddress :: QByteArray
  b_dstEndpointId :: "8 word"
  b_unbind :: bool

record DataRequestObject =
  q_device :: Device
  q_endpointId :: "8 word"
  q_clusterId :: "16 word"
  q_data :: QByteArray
  q_name :: string

datatype RequestPayload =
    BindingPayload BindingRequestObject
  | DataPayload DataRequestObject
  | DevicePayload Device

record RequestObject =
  m_request :: RequestPayload
  m_type :: RequestType
  m_status :: RequestStatus

text \<open>
  What the engine does that the outside can see, in program order: signals emitted,
  calls into the persistence layer, and requests put into the table.
\<close>

datatype Event =
    DeviceEvent Device string
  | EndpointUpdated Device "8 word"
  | StoreDatabase
  | StoreProperties
  | Enqueued "8 word" RequestObject

record ZigBee =
  store :: "Device \<Rightarrow> DeviceObject"
  allocated :: nat
  m_devices :: "(QByteArray \<times> Device) list"
  m_requests :: "(8 word \<times> RequestObject) list"
  m_requestId :: "8 word"
  m_requestTimer :: bool
  m_otaUpgradeFile :: string
  trace :: "Event list"

text \<open>
  The adapter driver is an external collaborator: each request either is accepted or is
  refused. \<open>adapterAddress\<close> holds the eight bytes of the adapter's 64-bit IEEE address
  as they lie in memory.
\<close>

record Adapter =
  adapterAddress :: QByteArray
  nodeDescriptorRequest :: "8 word \<Rightarrow> 16 word \<Rightarrow> bool"
  activeEndpointsRequest :: "8 word \<Rightarrow> 16 word \<Rightarrow> bool"
  simpleDescriptorRequest :: "8 word \<Rightarrow> 16 word \<Rightarrow> 8 word \<Rightarrow> bool"
  dataRequest :: "8 word \<Rightarrow> 16 word \<Rightarrow> 8 word \<Rightarrow> 16 word \<Rightarrow> QByteArray \<Rightarrow> bool"
  bindRequest ::
    "8 word \<Rightarrow> 16 word \<Rightarrow> QByteArray \<Rightarrow> 8 word \<Rightarrow> 16 word \<Rightarrow> QByteArray \<Rightarrow> 8 word \<Rightarrow> bool \<Rightarrow> bool"
  leaveRequest :: "8 word \<Rightarrow> 16 word \<Rightarrow> QByteArray \<Rightarrow> bool"
  lqiRequest :: "8 word \<Rightarrow> 16 word \<Rightarrow> bool"

record otaFileHeaderStruct =
  h_manufacturerCode :: "16 word"
  h_imageType :: "16 word"
  h_fileVersion :: "32 word"
  h_imageSize :: "32 word"

record otaNextImageRequestStruct =
  nq_manufacturerCode :: "16 word"
  nq_imageType :: "16 word"
  nq_fileVersion :: "32 word"

record otaNextImageResponseStruct =
  nr_status :: "8 word"
  nr_manufacturerCode :: "16 word"
  nr_imageType :: "16 word"
  nr_fileVersion :: "32 word"
  nr_imageSize :: "32 word"

record otaImageBlockRequestStruct =
  bq_manufacturerCode :: "16 word"
  bq_imageType :: "16 word"
  bq_fileVersion :: "32 word"
  bq_fileOffset :: "32 word"
  bq_dataSizeMax :: "8 word"

record otaImageBlockResponseStruct =
  br_status :: "8 word"
  br_manufacturerCode :: "16 word"
  br_imageType :: "16 word"
  br_fileVersion :: "32 word"
  br_fileOffset :: "32 word"
  br_dataSize :: "8 word"

record otaUpgradeEndRequestStruct =
  eq_status :: "8 word"
  eq_manufacturerCode :: "16 word"
  eq_imageType :: "16 word"
  eq_fileVersion :: "32 word"

record otaUpgradeEndResponseStruct =
  er_manufacturerCode :: "16 word"
  er_imageType :: "16 word"
  er_fileVersion :: "32 word"
  er_currentTime :: "32 word"
  er_upgradeTime :: "32 word"

text \<open>
  The declarations the engine takes from headers that are not part of the sources at
  hand (\<open>zcl.h\<close>, \<open>zigbee.h\<close>, \<open>device.h\<close>, \<open>property.h\<close>) and whose content the
  specification does not give are parameters of the model: command ids and status
  codes, the sizing of ZCL data types, the layout of the structs the engine overlays on
  payloads or copies into frames, the default arguments of \<open>enqueueBindingRequest\<close>,
  and the registry behind \<open>setupDevice\<close>. A struct reader yields \<open>None\<close> where the
  overlay would read outside the buffer. The multi-byte fields of the OTA structs hold
  the wire bytes unconverted; the model shows them as the words those bytes spell.

  The two functions of the Qt library that decide what text a payload yields are
  parameters as well: \<open>QString_of\<close> is the constructor \<open>QString(const QByteArray &)\<close>,
  which decodes the bytes, and \<open>isSpace\<close> is \<open>QChar::isSpace\<close>, which tells
  \<open>QString::trimmed\<close> what to strip.
\<close>

record Headers =
  CMD_READ_ATTRIBUTES :: "8 word"
  CMD_READ_ATTRIBUTES_RESPONSE :: "8 word"
  CMD_WRITE_ATTRIBUTES :: "8 word"
  CMD_WRITE_ATTRIBUTES_RESPONSE :: "8 word"
  CMD_CONFIGURE_REPORTING :: "8 word"
  CMD_CONFIGURE_REPORTING_RESPONSE :: "8 word"
  CMD_REPORT_ATTRIBUTES :: "8 word"
  CMD_DEFAULT_RESPONSE :: "8 word"
  STATUS_UNSUPPORTED_ATTRIBUTE :: "8 word"
  STATUS_NO_IMAGE_AVAILABLE :: "8 word"
  POWER_SOURCE_BATTERY :: "8 word"
  zclDataSize :: "8 word \<Rightarrow> nat"
  zclDataSizeAt :: "8 word \<Rightarrow> QByteArray \<Rightarrow> 8 word \<Rightarrow> (8 word \<times> 8 word) option"
  configureReportingItem :: "ReportingObject \<Rightarrow> 16 word \<Rightarrow> QByteArray"
  defaultDstAddress :: QByteArray
  defaultDstEndpointId :: "8 word"
  defaultUnbind :: bool
  registry :: "QString \<Rightarrow> QString \<Rightarrow> 8 word \<Rightarrow> PropertyObject list \<times> ReportingObject list"
  groupControlResponse :: "QByteArray \<Rightarrow> (8 word \<times> 16 word) option"
  otaFileHeader :: "QByteArray \<Rightarrow> otaFileHeaderStruct option"
  otaNextImageRequest :: "QByteArray \<Rightarrow> otaNextImageRequestStruct option"
  otaNextImageResponse :: "otaNextImageResponseStruct \<Rightarrow> QByteArray"
  otaImageBlockRequest :: "QByteArray \<Rightarrow> otaImageBlockRequestStruct option"
  otaImageBlockResponse :: "otaImageBlockResponseStruct \<Rightarrow> QByteArray"
  otaUpgradeEndRequest :: "QByteArray \<Rightarrow> otaUpgradeEndRequestStruct option"
  otaUpgradeEndResponse :: "otaUpgradeEndResponseStruct \<Rightarrow> QByteArray"
  tuyaHeader :: tuyaHeaderLayout
  QString_of :: "QByteArray \<Rightarrow> QString"
  isSpace :: "QChar \<Rightarrow> bool"

text \<open>The wall clock, as \<open>QDateTime::toTime_t\<close> and \<open>offsetFromUtc\<close> report it.\<close>

record QDateTime =
  toTime_t :: "32 word"
  offsetFromUtc :: "32 word"

text \<open>
  Modelled from the spec: the constructors are declared in \<open>device.h\<close>, which is not
  part of the sources at hand. A new device carries its addresses and, optionally, a
  display name; it is "unknown": no manufacturer or model name, no interview flag, no
  endpoints. A new endpoint carries its id, an unknown zone status and nothing else.
\<close>

definition DeviceObject_new :: "QByteArray \<Rightarrow> 16 word \<Rightarrow> string \<Rightarrow> DeviceObject" where
  "DeviceObject_new ieee nwk nm =
     \<lparr>ieeeAddress = ieee, networkAddress = nwk, name = nm, manufacturerName = [],
      modelName = [], version = 0, powerSource = 0, logicalType = EndDevice,
      descriptorReceived = False, endpointsReceived = False, interviewFinished = False,
      removed = False, interviewEndpointId = 0, timer = False, endpoints = [],
      linkQuality = 0\<rparr>"

definition EndpointObject_new :: "8 word \<Rightarrow> EndpointObject" where
  "EndpointObject_new i =
     \<lparr>e_id = i, inClusters = [], outClusters = [], zoneStatus = Unknown,
      e_descriptorReceived = False, updated = False, properties = [], reportings = []\<rparr>"

definition upd_device :: "Device \<Rightarrow> (DeviceObject \<Rightarrow> DeviceObject) \<Rightarrow> ZigBee \<Rightarrow> ZigBee" where
  "upd_device d f s = s\<lparr>store := (store s)(d := f (store s d))\<rparr>"

fun qmap_update :: "'k \<Rightarrow> ('v \<Rightarrow> 'v) \<Rightarrow> ('k \<times> 'v) list \<Rightarrow> ('k \<times> 'v) list" where
  "qmap_update k f [] = []"
| "qmap_update k f ((k', v) # m) =
     (if k = k' then (k', f v) # m else (k', v) # qmap_update k f m)"

definition upd_endpoint ::
  "Endpoint \<Rightarrow> (EndpointObject \<Rightarrow> EndpointObject) \<Rightarrow> ZigBee \<Rightarrow> ZigBee" where
  "upd_endpoint ep f s =
     upd_device (fst ep) (\<lambda>d. d\<lparr>endpoints := qmap_update (snd ep) f (endpoints d)\<rparr>) s"

definition emit :: "Event \<Rightarrow> ZigBee \<Rightarrow> ZigBee" where
  "emit e s = s\<lparr>trace := trace s @ [e]\<rparr>"

text \<open>
  Modelled from the spec: \<open>zclHeader\<close> is defined in \<open>zcl.cpp\<close>, which is not part of
  the sources at hand. The specification gives the header as frameControl:u8, the
  manufacturer code (u16) if \<open>FC_MANUFACTURER_SPECIFIC\<close>, transactionId:u8,
  commandId:u8.
\<close>

definition toLittleEndian16 :: "16 word \<Rightarrow> QByteArray" where
  "toLittleEndian16 w = [ucast w, ucast (drop_bit 8 w)]"

definition toLittleEndian32 :: "32 word \<Rightarrow> QByteArray" where
  "toLittleEndian32 w =
     [ucast w, ucast (drop_bit 8 w), ucast (drop_bit 16 w), ucast (drop_bit 24 w)]"

definition zclHeader :: "8 word \<Rightarrow> 8 word \<Rightarrow> 8 word \<Rightarrow> 16 word \<Rightarrow> QByteArray" where
  "zclHeader frameControl transactionId commandId manufacturerCode =
     [frameControl]
     @ (if frameControl AND FC_MANUFACTURER_SPECIFIC \<noteq> 0
        then toLittleEndian16 manufacturerCode else [])
     @ [transactionId, commandId]"

subsection \<open>Request table\<close>

text \<open>
  Modelled from the spec: \<open>m_requests\<close> is declared in \<open>zigbee.h\<close>, which is not part
  of the sources at hand; it is a mapping from the 8-bit id to the request, taken here
  as a \<open>QMap\<close> (iterated in key order). A new request is \<open>Pending\<close>.
\<close>

definition enqueue :: "RequestObject \<Rightarrow> ZigBee \<Rightarrow> ZigBee" where
  "enqueue r s =
     (let s = (if \<not> m_requestTimer s then s\<lparr>m_requestTimer := True\<rparr> else s);
          i = m_requestId s
      in emit (Enqueued i r)
           (s\<lparr>m_requests := qmap_insert i r (m_requests s), m_requestId := i + 1\<rparr>))"

definition enqueueBindingRequest ::
  "Device \<Rightarrow> 8 word \<Rightarrow> 16 word \<Rightarrow> QByteArray \<Rightarrow> 8 word \<Rightarrow> bool \<Rightarrow> ZigBee \<Rightarrow> ZigBee" where
  "enqueueBindingRequest device endpointId clusterId dstAddress dstEndpointId unbind s =
     enqueue
       \<lparr>m_request = BindingPayload
          \<lparr>b_device = device, b_endpointId = endpointId, b_clusterId = clusterId,
           b_dstAddress = dstAddress, b_dstEndpointId = dstEndpointId, b_unbind = unbind\<rparr>,
        m_type = Binding, m_status = Pending\<rparr> s"

definition enqueueDataRequest ::
  "Device \<Rightarrow> 8 word \<Rightarrow> 16 word \<Rightarrow> QByteArray \<Rightarrow> string \<Rightarrow> ZigBee \<Rightarrow> ZigBee" where
  "enqueueDataRequest device endpointId clusterId data nm s =
     enqueue
       \<lparr>m_request = DataPayload
          \<lparr>q_device = device, q_endpointId = endpointId, q_clusterId = clusterId,
           q_data = data, q_name = nm\<rparr>,
        m_type = Data, m_status = Pending\<rparr> s"

definition enqueueDeviceRequest :: "Device \<Rightarrow> RequestType \<Rightarrow> ZigBee \<Rightarrow> ZigBee" where
  "enqueueDeviceRequest device t s =
     enqueue \<lparr>m_request = DevicePayload device, m_type = t, m_status = Pending\<rparr> s"

definition attributesRequest :: "Headers \<Rightarrow> 8 word \<Rightarrow> 16 word list \<Rightarrow> 16 word \<Rightarrow> QByteArray" where
  "attributesRequest H i attributes manufacturerCode =
     zclHeader 0x00 i (CMD_READ_ATTRIBUTES H) manufacturerCode
     @ concat (map toLittleEndian16 attributes)"


subsection \<open>Interview\<close>

definition interviewError :: "Device \<Rightarrow> string \<Rightarrow> ZigBee \<Rightarrow> ZigBee" where
  "interviewError device reason s =
     (if \<not> timer (store s device) then s
      else upd_device device (\<lambda>d. d\<lparr>timer := False\<rparr>)
             (emit (DeviceEvent device ''interviewError'') s))"

definition interviewDevice :: "Device \<Rightarrow> ZigBee \<Rightarrow> ZigBee" where
  "interviewDevice device s =
     (if interviewFinished (store s device) then s
      else upd_device device (\<lambda>d. d\<lparr>timer := True\<rparr>)
             (enqueueDeviceRequest device Interview s))"

text \<open>
  Modelled from the spec: \<open>DeviceList::setupDevice\<close> is not part of the sources at
  hand. It instantiates, on every endpoint, the property and reporting objects that fit
  the device's manufacturer and model name; the registry is a parameter.
\<close>

definition setupDevice :: "Headers \<Rightarrow> Device \<Rightarrow> ZigBee \<Rightarrow> ZigBee" where
  "setupDevice H device s =
     upd_device device
       (\<lambda>d. d\<lparr>endpoints :=
          map (\<lambda>(k, e). (k, e\<lparr>properties := fst (registry H (manufacturerName d) (modelName d) k),
                                reportings := snd (registry H (manufacturerName d) (modelName d) k)\<rparr>))
            (endpoints d)\<rparr>) s"

text \<open>
  \<open>configureReporting\<close>: the header takes the transaction id before the binding
  request is enqueued.
\<close>

definition configureReporting :: "Headers \<Rightarrow> Device \<Rightarrow> EndpointObject \<Rightarrow> ReportingObject \<Rightarrow> ZigBee \<Rightarrow> ZigBee" where
  "configureReporting H device endpoint reporting s =
     (let request = zclHeader 0x00 (m_requestId s) (CMD_CONFIGURE_REPORTING H) 0;
          s = enqueueBindingRequest device (e_id endpoint) (r_clusterId reporting)
                (defaultDstAddress H) (defaultDstEndpointId H) (defaultUnbind H) s;
          request = request @ concat (map (configureReportingItem H reporting) (r_attributes reporting))
      in enqueueDataRequest device (e_id endpoint) (r_clusterId reporting) request
           (r_name reporting @ '' reporting configuration'') s)"

definition configureReportings :: "Headers \<Rightarrow> Device \<Rightarrow> ZigBee \<Rightarrow> ZigBee" where
  "configureReportings H device s =
     fold (\<lambda>(k, e) s. fold (configureReporting H device e) (reportings e) s)
       (endpoints (store s device)) s"

text \<open>\<open>ZigBee::interviewFinished\<close>; the record field of the same name is the flag.\<close>

definition ZigBee_interviewFinished :: "Headers \<Rightarrow> Device \<Rightarrow> ZigBee \<Rightarrow> ZigBee" where
  "ZigBee_interviewFinished H device s =
     (let s = setupDevice H device s;
          s = configureReportings H device s;
          s = emit (DeviceEvent device ''interviewFinished'') s;
          s = upd_device device (\<lambda>d. d\<lparr>timer := False, interviewFinished := True\<rparr>) s
      in emit StoreDatabase s)"

text \<open>
  Modelled from the spec: \<open>writeArrtibutesStruct\<close> is declared in \<open>zcl.h\<close>; an
  attribute record on the wire is attrId:u16 little-endian, dataType:u8, value.
\<close>

definition ias_payload_setAddress :: "Adapter \<Rightarrow> QByteArray" where
  "ias_payload_setAddress A =
     toLittleEndian16 0x0010 @ [DATA_TYPE_IEEE_ADDRESS] @ adapterAddress A"

text \<open>
  The IAS zone loop of \<open>interviewRequest\<close>, over the endpoints in key order: the result
  is \<open>Some\<close> as soon as an endpoint that is not enrolled decides the call, \<open>None\<close> when
  the loop runs to its end.
\<close>

fun interviewZones ::
  "Headers \<Rightarrow> Adapter \<Rightarrow> 8 word \<Rightarrow> Device \<Rightarrow> (8 word \<times> EndpointObject) list \<Rightarrow> ZigBee
   \<Rightarrow> (bool \<times> ZigBee) option" where
  "interviewZones H A i device [] s = None"
| "interviewZones H A i device ((k, e) # es) s =
     (if CLUSTER_IAS_ZONE \<notin> set (inClusters e) then interviewZones H A i device es s
      else case zoneStatus e of
        Unknown \<Rightarrow>
          if dataRequest A i (networkAddress (store s device)) k CLUSTER_IAS_ZONE
               (attributesRequest H i [0x0000, 0x0010] 0)
          then Some (True, s)
          else Some (False, interviewError device ''read current IAS zone status request failed'' s)
      | SetAddress \<Rightarrow>
          if dataRequest A i (networkAddress (store s device)) (e_id e) CLUSTER_IAS_ZONE
               (zclHeader FC_DISABLE_DEFAULT_RESPONSE i (CMD_WRITE_ATTRIBUTES H) 0
                @ ias_payload_setAddress A)
          then Some (True, s)
          else Some (False, interviewError device ''write IAS zone CIE address request failed'' s)
      | Enroll \<Rightarrow>
          if dataRequest A i (networkAddress (store s device)) (e_id e) CLUSTER_IAS_ZONE
               (zclHeader (FC_CLUSTER_SPECIFIC OR FC_DISABLE_DEFAULT_RESPONSE) i 0x00 0
                @ [0x00, 0x42])
             \<and> dataRequest A i (networkAddress (store s device)) k CLUSTER_IAS_ZONE
                 (attributesRequest H i [0x0000, 0x0010] 0)
          then Some (True, s)
          else Some (False, interviewError device ''enroll IAS zone request failed'' s)
      | Enrolled \<Rightarrow> interviewZones H A i device es s)"

definition interviewRequest ::
  "Headers \<Rightarrow> Adapter \<Rightarrow> 8 word \<Rightarrow> Device \<Rightarrow> ZigBee \<Rightarrow> bool \<times> ZigBee" where
  "interviewRequest H A i device s =
     (let d = store s device in
      if manufacturerName d = [] \<or> modelName d = [] then
        if \<not> descriptorReceived d then
          if nodeDescriptorRequest A i (networkAddress d) then (True, s)
          else (False, interviewError device ''node descriptor request failed'' s)
        else if \<not> endpointsReceived d then
          if activeEndpointsRequest A i (networkAddress d) then (True, s)
          else (False, interviewError device ''active endpoints request failed'' s)
        else case find (\<lambda>(k, e). \<not> e_descriptorReceived e) (endpoints d) of
          Some (k, e) \<Rightarrow>
            (let s = upd_device device (\<lambda>d. d\<lparr>interviewEndpointId := e_id e\<rparr>) s in
             if simpleDescriptorRequest A i (networkAddress d) k then (True, s)
             else (False, interviewError device ''endpoint simple descriptor request failed'' s))
        | None \<Rightarrow>
            (case find (\<lambda>(k, e). CLUSTER_BASIC \<in> set (inClusters e)) (endpoints d) of
               Some (k, e) \<Rightarrow>
                 if dataRequest A i (networkAddress d) k CLUSTER_BASIC
                      (attributesRequest H i [0x0001, 0x0004, 0x0005, 0x0007] 0)
                 then (True, s)
                 else (False, interviewError device ''read basic attributes request failed'' s)
             | None \<Rightarrow>
                 (False, interviewError device
                    ''device has empty manufacturer name or model name'' s))
      else case interviewZones H A i device (endpoints d) s of
        Some r \<Rightarrow> r
      | None \<Rightarrow> (True, ZigBee_interviewFinished H device s))"


subsection \<open>Attribute dispatch\<close>

text \<open>
  \<open>QString::trimmed\<close> removes from both ends the characters for which
  \<open>QChar::isSpace\<close> holds; \<open>QString::startsWith\<close> compares code units.
\<close>

definition trimmed :: "Headers \<Rightarrow> QString \<Rightarrow> QString" where
  "trimmed H t = rev (dropWhile (isSpace H) (rev (dropWhile (isSpace H) t)))"

definition startsWith :: "QString \<Rightarrow> QString \<Rightarrow> bool" where
  "startsWith t pre = (take (length pre) t = pre)"

definition endpointOf :: "ZigBee \<Rightarrow> Endpoint \<Rightarrow> EndpointObject option" where
  "endpointOf s ep = qmap_value (endpoints (store s (fst ep))) (snd ep)"

text \<open>
  The loop over an endpoint's properties, shared by \<open>parseAttribute\<close> and
  \<open>clusterCommandReceived\<close>: \<open>parse\<close> is the virtual call made on each property of the
  cluster. The result carries the properties and whether a value changed
  (\<open>QVariant\<close> comparison is taken as equality of the modelled values).
\<close>

fun parseProperties ::
  "(PropertyObject \<Rightarrow> PropertyObject option) \<Rightarrow> 16 word \<Rightarrow> PropertyObject list
   \<Rightarrow> (PropertyObject list \<times> bool) option" where
  "parseProperties parse clusterId [] = Some ([], False)"
| "parseProperties parse clusterId (p # ps) =
     (if m_clusterId p = clusterId then
        do {
          p' \<leftarrow> parse p;
          (ps', u) \<leftarrow> parseProperties parse clusterId ps;
          Some (p' # ps', u \<or> m_value p' \<noteq> m_value p)
        }
      else
        do {
          (ps', u) \<leftarrow> parseProperties parse clusterId ps;
          Some (p # ps', u)
        })"

definition forwardToProperties ::
  "(PropertyObject \<Rightarrow> PropertyObject option) \<Rightarrow> Endpoint \<Rightarrow> 16 word \<Rightarrow> ZigBee \<Rightarrow> ZigBee option" where
  "forwardToProperties parse ep clusterId s =
     do {
       e \<leftarrow> endpointOf s ep;
       (ps, u) \<leftarrow> parseProperties parse clusterId (properties e);
       Some (upd_endpoint ep (\<lambda>e. e\<lparr>properties := ps, updated := (updated e \<or> u)\<rparr>) s)
     }"

definition tuya_models :: "QString list" where
  "tuya_models =
     map QString_literal
       [''TS0001'', ''TS0002'', ''TS0004'', ''TS0004'',
        ''TS0011'', ''TS0012'', ''TS0013'', ''TS0014'',
        ''TS0201'', ''TS0202'', ''TS0203'', ''TS0204'', ''TS0205'', ''TS0207'',
        ''TS0601'']"

definition tuya_promoted :: "QString list" where
  "tuya_promoted =
     map QString_literal [''TS0001'', ''TS0011'', ''TS0201'', ''TS0202'', ''TS0207'', ''TS0601'']"

text \<open>
  The tail of the Basic-cluster branch of \<open>parseAttribute\<close>. In \<open>parseAttribute\<close> and
  the handlers below an endpoint handle that names no object has no defined result.
\<close>

definition basicInterview :: "Device \<Rightarrow> 16 word \<Rightarrow> ZigBee \<Rightarrow> ZigBee" where
  "basicInterview device attributeId s =
     (let d = store s device in
      if \<not> interviewFinished d \<and> manufacturerName d \<noteq> [] \<and> modelName d \<noteq> []
         \<and> (attributeId = 0x0004 \<or> attributeId = 0x0005)
      then
        (let s =
           (if manufacturerName d \<noteq> [] \<and> modelName d \<in> set tuya_models
            then
              (let s = (if modelName d \<in> set tuya_promoted
                        then upd_device device (\<lambda>d. d\<lparr>modelName := manufacturerName d\<rparr>) s
                        else s)
               in upd_device device (\<lambda>d. d\<lparr>manufacturerName := QString_literal ''TUYA''\<rparr>) s)
            else s)
         in interviewDevice device s)
      else s)"

definition parseAttribute ::
  "Headers \<Rightarrow> Adapter \<Rightarrow> Endpoint \<Rightarrow> 16 word \<Rightarrow> 16 word \<Rightarrow> 8 word \<Rightarrow> QByteArray
   \<Rightarrow> ZigBee \<Rightarrow> ZigBee option" where
  "parseAttribute H A ep clusterId attributeId dataType data s =
     (let device = fst ep in
      if endpointOf s ep = None then None
      else if clusterId = CLUSTER_BASIC then
        if attributeId = 0x0001 then
          if dataType \<noteq> DATA_TYPE_8BIT_UNSIGNED then Some s
          else do {
            b \<leftarrow> at' data 0;
            Some (basicInterview device attributeId
                    (upd_device device (\<lambda>d. d\<lparr>version := b\<rparr>) s))
          }
        else if attributeId = 0x0004 then
          if dataType \<noteq> DATA_TYPE_CHARACTER_STRING then Some s
          else Some (basicInterview device attributeId
                       (upd_device device
                          (\<lambda>d. d\<lparr>manufacturerName := trimmed H (QString_of H data)\<rparr>) s))
        else if attributeId = 0x0005 then
          if dataType \<noteq> DATA_TYPE_CHARACTER_STRING then Some s
          else
            (let s = upd_device device
                       (\<lambda>d. d\<lparr>modelName := trimmed H (QString_of H data)\<rparr>) s in
             if manufacturerName (store s device) = []
                \<and> startsWith (modelName (store s device)) (QString_literal ''lumi.sensor'')
             then
               Some (ZigBee_interviewFinished H device
                       (upd_device device (\<lambda>d. d\<lparr>manufacturerName := QString_literal ''LUMI''\<rparr>)
                          (upd_device device (\<lambda>d. d\<lparr>powerSource := POWER_SOURCE_BATTERY H\<rparr>) s)))
             else Some (basicInterview device attributeId s))
        else if attributeId = 0x0007 then
          if dataType \<noteq> DATA_TYPE_8BIT_UNSIGNED \<and> dataType \<noteq> DATA_TYPE_8BIT_ENUM then Some s
          else do {
            b \<leftarrow> at' data 0;
            Some (basicInterview device attributeId
                    (upd_device device (\<lambda>d. d\<lparr>powerSource := b\<rparr>) s))
          }
        else Some (basicInterview device attributeId s)
      else if clusterId = CLUSTER_IAS_ZONE \<and> (attributeId = 0x0000 \<or> attributeId = 0x0010) then
        if attributeId = 0x0000 then
          if dataType \<noteq> DATA_TYPE_8BIT_ENUM then Some s
          else do {
            b \<leftarrow> at' data 0;
            Some (upd_endpoint ep
                    (\<lambda>e. e\<lparr>zoneStatus := (if b \<noteq> 0 then Enrolled else Enroll)\<rparr>) s)
          }
        else
          if dataType \<noteq> DATA_TYPE_IEEE_ADDRESS then Some s
          else
            if length data < 7 then None
            else
              (let s = (if adapterAddress A \<noteq> take 8 (data @ [0])
                        then upd_endpoint ep (\<lambda>e. e\<lparr>zoneStatus := SetAddress\<rparr>) s
                        else s)
               in Some (interviewDevice device s))
      else if \<not> interviewFinished (store s device) then Some s
      else forwardToProperties (\<lambda>p. parseAttribte p attributeId dataType data) ep clusterId s)"


subsection \<open>Cluster-specific commands\<close>

text \<open>
  The file system is an input: \<open>fs name\<close> is the content of the file when it exists
  and can be opened for reading. The source zeroes the header and fills it from the
  file only when the file is open.
\<close>

definition otaZeroHeader :: otaFileHeaderStruct where
  "otaZeroHeader =
     \<lparr>h_manufacturerCode = 0, h_imageType = 0, h_fileVersion = 0, h_imageSize = 0\<rparr>"

definition otaFrameControl :: "8 word" where
  "otaFrameControl = FC_CLUSTER_SPECIFIC OR FC_SERVER_TO_CLIENT OR FC_DISABLE_DEFAULT_RESPONSE"

definition otaUpgrade ::
  "Headers \<Rightarrow> (string \<Rightarrow> QByteArray option) \<Rightarrow> Endpoint \<Rightarrow> 8 word \<Rightarrow> 8 word \<Rightarrow> QByteArray
   \<Rightarrow> ZigBee \<Rightarrow> ZigBee option" where
  "otaUpgrade H fs ep transactionId commandId payload s =
     do {
       let device = fst ep;
       e \<leftarrow> endpointOf s ep;
       let file = fs (m_otaUpgradeFile s);
       header \<leftarrow> (case file of None \<Rightarrow> Some otaZeroHeader | Some bytes \<Rightarrow> otaFileHeader H bytes);
       if commandId = 0x01 then
         if file = None then
           Some (enqueueDataRequest device (e_id e) CLUSTER_OTA_UPGRADE
                   (zclHeader otaFrameControl transactionId 0x02 0
                    @ [STATUS_NO_IMAGE_AVAILABLE H]) [] s)
         else do {
           request \<leftarrow> otaNextImageRequest H payload;
           if nq_manufacturerCode request \<noteq> h_manufacturerCode header
              \<or> nq_imageType request \<noteq> h_imageType header
           then
             Some (enqueueDataRequest device (e_id e) CLUSTER_OTA_UPGRADE
                     (zclHeader otaFrameControl transactionId 0x02 0
                      @ [STATUS_NO_IMAGE_AVAILABLE H]) [] s)
           else if nq_fileVersion request = h_fileVersion header then
             Some (enqueueDataRequest device (e_id e) CLUSTER_OTA_UPGRADE
                     (zclHeader otaFrameControl transactionId 0x02 0
                      @ [STATUS_NO_IMAGE_AVAILABLE H]) [] s)
           else
             Some (enqueueDataRequest device (e_id e) CLUSTER_OTA_UPGRADE
                     (zclHeader otaFrameControl transactionId 0x02 0
                      @ otaNextImageResponse H
                          \<lparr>nr_status = 0x00,
                           nr_manufacturerCode = h_manufacturerCode header,
                           nr_imageType = h_imageType header,
                           nr_fileVersion = h_fileVersion header,
                           nr_imageSize = h_imageSize header\<rparr>) [] s)
         }
       else if commandId = 0x03 then
         (case file of
            None \<Rightarrow>
              Some (enqueueDataRequest device (e_id e) CLUSTER_OTA_UPGRADE
                      (zclHeader otaFrameControl transactionId 0x05 0
                       @ [STATUS_NO_IMAGE_AVAILABLE H]) [] s)
          | Some bytes \<Rightarrow> do {
              request \<leftarrow> otaImageBlockRequest H payload;
              if bq_manufacturerCode request \<noteq> h_manufacturerCode header
                 \<or> bq_imageType request \<noteq> h_imageType header
                 \<or> bq_fileVersion request \<noteq> h_fileVersion header
              then
                Some (enqueueDataRequest device (e_id e) CLUSTER_OTA_UPGRADE
                        (zclHeader otaFrameControl transactionId 0x05 0
                         @ [STATUS_NO_IMAGE_AVAILABLE H]) [] s)
              else
                (let block = take (unat (bq_dataSizeMax request))
                               (drop (unat (bq_fileOffset request)) bytes)
                 in Some (enqueueDataRequest device (e_id e) CLUSTER_OTA_UPGRADE
                            (zclHeader otaFrameControl transactionId 0x05 0
                             @ otaImageBlockResponse H
                                 \<lparr>br_status = 0x00,
                                  br_manufacturerCode = bq_manufacturerCode request,
                                  br_imageType = bq_imageType request,
                                  br_fileVersion = bq_fileVersion request,
                                  br_fileOffset = bq_fileOffset request,
                                  br_dataSize = of_nat (length block)\<rparr>
                             @ block) [] s))
            })
       else if commandId = 0x06 then do {
         let s = s\<lparr>m_otaUpgradeFile := []\<rparr>;
         request \<leftarrow> otaUpgradeEndRequest H payload;
         if eq_status request \<noteq> 0 then Some s
         else
           Some (enqueueDataRequest device (e_id e) CLUSTER_OTA_UPGRADE
                   (zclHeader otaFrameControl transactionId 0x07 0
                    @ otaUpgradeEndResponse H
                        \<lparr>er_manufacturerCode = eq_manufacturerCode request,
                         er_imageType = eq_imageType request,
                         er_fileVersion = eq_fileVersion request,
                         er_currentTime = 0,
                         er_upgradeTime = 0\<rparr>) [] s)
       }
       else Some s
     }"

definition clusterCommandReceived ::
  "Headers \<Rightarrow> (string \<Rightarrow> QByteArray option) \<Rightarrow> Endpoint \<Rightarrow> 16 word \<Rightarrow> 8 word \<Rightarrow> 8 word
   \<Rightarrow> QByteArray \<Rightarrow> ZigBee \<Rightarrow> ZigBee option" where
  "clusterCommandReceived H fs ep clusterId transactionId commandId payload s =
     (let device = fst ep in
      if endpointOf s ep = None then None
      else if \<not> interviewFinished (store s device) then Some s
      else if clusterId = CLUSTER_GROUPS then
        if commandId = 0x00 \<or> commandId = 0x03
        then do { response \<leftarrow> groupControlResponse H payload; Some s }
        else Some s
      else if clusterId = CLUSTER_OTA_UPGRADE then
        otaUpgrade H fs ep transactionId commandId payload s
      else forwardToProperties (\<lambda>p. parseCommand (tuyaHeader H) p commandId payload)
             ep clusterId s)"

subsection \<open>Global commands\<close>

text \<open>
  The \<open>CMD_READ_ATTRIBUTES\<close> loop: the index is a \<open>quint8\<close> that advances by two and
  wraps, so the loop does not end on a payload of 255 bytes or more. The two bytes of
  an attribute id are read through \<open>constData\<close>. The wall clock is an input; one run
  of the handler is taken to see one instant.
\<close>

partial_function (option) readAttributes ::
  "Headers \<Rightarrow> QDateTime \<Rightarrow> 16 word \<Rightarrow> QByteArray \<Rightarrow> 8 word \<Rightarrow> QByteArray \<Rightarrow> QByteArray option" where
  "readAttributes H now clusterId payload i request =
     (if unat i < length payload then
        do {
          b0 \<leftarrow> constData payload (unat i);
          b1 \<leftarrow> constData payload (unat i + 1);
          let attributeId = fromLittleEndian16 b0 b1;
          let request = request @ mid payload (unat i) 2;
          if clusterId = CLUSTER_TIME
             \<and> (attributeId = 0x0000 \<or> attributeId = 0x0002 \<or> attributeId = 0x0007)
          then
            (let request = request @ [STATUS_SUCCESS];
                 request =
                   (if attributeId = 0x0000 then
                      request @ [DATA_TYPE_UTC_TIME]
                      @ toLittleEndian32 (toTime_t now - 946684800)
                    else if attributeId = 0x0002 then
                      request @ [DATA_TYPE_32BIT_SIGNED]
                      @ toLittleEndian32 (offsetFromUtc now)
                    else
                      request @ [DATA_TYPE_32BIT_UNSIGNED]
                      @ toLittleEndian32 (toTime_t now + offsetFromUtc now - 946684800))
             in readAttributes H now clusterId payload (i + 2) request)
          else
            readAttributes H now clusterId payload (i + 2)
              (request @ [STATUS_UNSUPPORTED_ATTRIBUTE H])
        }
      else Some request)"

text \<open>
  The record loop of \<open>CMD_READ_ATTRIBUTES_RESPONSE\<close> and \<open>CMD_REPORT_ATTRIBUTES\<close>.
  \<open>zclDataSizeAt\<close> yields the size and the advanced offset, both \<open>quint8\<close>.
\<close>

partial_function (option) reportAttributes ::
  "Headers \<Rightarrow> Adapter \<Rightarrow> Endpoint \<Rightarrow> 16 word \<Rightarrow> 8 word \<Rightarrow> QByteArray \<Rightarrow> ZigBee \<Rightarrow> ZigBee option" where
  "reportAttributes H A ep clusterId commandId payload s =
     (if length payload > 2 then
        do {
          skip \<leftarrow> (if commandId = CMD_READ_ATTRIBUTES_RESPONSE H
                   then do { st \<leftarrow> at' payload 2; Some (st \<noteq> 0) }
                   else Some False);
          if skip then reportAttributes H A ep clusterId commandId (drop 3 payload) s
          else do {
            dataType \<leftarrow> (if commandId = CMD_READ_ATTRIBUTES_RESPONSE H
                         then at' payload 3 else at' payload 2);
            let offset = (if commandId = CMD_READ_ATTRIBUTES_RESPONSE H then 4 else 3);
            b0 \<leftarrow> constData payload 0;
            b1 \<leftarrow> constData payload 1;
            let attributeId = fromLittleEndian16 b0 b1;
            (size, offset) \<leftarrow> zclDataSizeAt H dataType payload offset;
            if dataType \<noteq> DATA_TYPE_OCTET_STRING \<and> dataType \<noteq> DATA_TYPE_CHARACTER_STRING
               \<and> size = 0
            then Some s
            else do {
              s \<leftarrow> parseAttribute H A ep clusterId attributeId dataType
                     (mid payload (unat offset) (unat size)) s;
              reportAttributes H A ep clusterId commandId
                (drop (unat offset + unat size) payload) s
            }
          }
        }
      else Some s)"

definition globalCommandReceived ::
  "Headers \<Rightarrow> Adapter \<Rightarrow> QDateTime \<Rightarrow> Endpoint \<Rightarrow> 16 word \<Rightarrow> 8 word \<Rightarrow> 8 word \<Rightarrow> QByteArray
   \<Rightarrow> ZigBee \<Rightarrow> ZigBee option" where
  "globalCommandReceived H A now ep clusterId transactionId commandId payload s =
     (let device = fst ep in
      if endpointOf s ep = None then None
      else if commandId = CMD_CONFIGURE_REPORTING_RESPONSE H \<or> commandId = CMD_DEFAULT_RESPONSE H
      then Some s
      else if commandId = CMD_READ_ATTRIBUTES H then
        do {
          request \<leftarrow> readAttributes H now clusterId payload 0
                       (zclHeader (FC_SERVER_TO_CLIENT OR FC_DISABLE_DEFAULT_RESPONSE)
                          transactionId (CMD_READ_ATTRIBUTES_RESPONSE H) 0);
          e \<leftarrow> endpointOf s ep;
          Some (enqueueDataRequest device (e_id e) clusterId request [] s)
        }
      else if commandId = CMD_READ_ATTRIBUTES_RESPONSE H \<or> commandId = CMD_REPORT_ATTRIBUTES H
      then reportAttributes H A ep clusterId commandId payload s
      else if commandId = CMD_WRITE_ATTRIBUTES_RESPONSE H then
        if clusterId = CLUSTER_IAS_ZONE then
          do {
            b \<leftarrow> at' payload 0;
            if b = 0
            then Some (interviewDevice device
                         (upd_endpoint ep (\<lambda>e. e\<lparr>zoneStatus := Enroll\<rparr>) s))
            else Some s
          }
        else Some s
      else Some s)"


subsection \<open>Incoming frames\<close>


definition DeviceList_endpoint :: "Device \<Rightarrow> 8 word \<Rightarrow> ZigBee \<Rightarrow> ZigBee" where
  "DeviceList_endpoint device endpointId s =
     (case qmap_value (endpoints (store s device)) endpointId of
        Some e \<Rightarrow> s
      | None \<Rightarrow>
          upd_device device
            (\<lambda>d. d\<lparr>endpoints := qmap_insert endpointId (EndpointObject_new endpointId) (endpoints d)\<rparr>) s)"

definition removeDevice :: "Device \<Rightarrow> ZigBee \<Rightarrow> ZigBee" where
  "removeDevice device s = upd_device device (\<lambda>d. d\<lparr>removed := True\<rparr>) s"



subsection \<open>Scheduler\<close>

definition setStatus :: "8 word \<Rightarrow> RequestStatus \<Rightarrow> ZigBee \<Rightarrow> ZigBee" where
  "setStatus key st s =
     s\<lparr>m_requests := qmap_update key (\<lambda>r. r\<lparr>m_status := st\<rparr>) (m_requests s)\<rparr>"

text \<open>
  \<open>requestFinished\<close>. \<open>qvariant_cast\<close> yields a null pointer when the request holds
  another payload than its type says; the source dereferences it.
\<close>

definition requestFinished :: "8 word \<Rightarrow> 8 word \<Rightarrow> ZigBee \<Rightarrow> ZigBee option" where
  "requestFinished i st s =
     (case qmap_value (m_requests s) i of
        None \<Rightarrow> Some s
      | Some r \<Rightarrow>
          if m_status r = Finished then Some s
          else do {
            s \<leftarrow> (case m_type r of
                    Binding \<Rightarrow> (case m_request r of BindingPayload b \<Rightarrow> Some s | _ \<Rightarrow> None)
                  | Data \<Rightarrow> (case m_request r of DataPayload q \<Rightarrow> Some s | _ \<Rightarrow> None)
                  | Remove \<Rightarrow>
                      (case m_request r of
                         DevicePayload device \<Rightarrow>
                           if removed (store s device) then Some s
                           else Some (emit StoreDatabase (removeDevice device s))
                       | _ \<Rightarrow> None)
                  | _ \<Rightarrow> Some s);
            Some (setStatus i Finished s)
          })"

text \<open>The body of the first loop of \<open>handleRequests\<close>, at the entry with key \<open>key\<close>.\<close>

definition sendRequest :: "Headers \<Rightarrow> Adapter \<Rightarrow> 8 word \<Rightarrow> ZigBee \<Rightarrow> ZigBee option" where
  "sendRequest H A key s =
     (case qmap_value (m_requests s) key of
        None \<Rightarrow> Some s
      | Some r \<Rightarrow>
          if m_status r \<noteq> Pending then Some s
          else do {
            s \<leftarrow> (case m_type r of
                    Binding \<Rightarrow>
                      (case m_request r of
                         BindingPayload b \<Rightarrow>
                           if \<not> bindRequest A key (networkAddress (store s (b_device b)))
                                  (ieeeAddress (store s (b_device b))) (b_endpointId b)
                                  (b_clusterId b) (b_dstAddress b) (b_dstEndpointId b) (b_unbind b)
                           then Some (setStatus key Aborted s) else Some s
                       | _ \<Rightarrow> None)
                  | Data \<Rightarrow>
                      (case m_request r of
                         DataPayload q \<Rightarrow>
                           if \<not> dataRequest A key (networkAddress (store s (q_device q)))
                                  (q_endpointId q) (q_clusterId q) (q_data q)
                           then Some (setStatus key Aborted s) else Some s
                       | _ \<Rightarrow> None)
                  | Remove \<Rightarrow>
                      (case m_request r of
                         DevicePayload device \<Rightarrow>
                           if \<not> leaveRequest A key (networkAddress (store s device))
                                  (ieeeAddress (store s device))
                           then Some (setStatus key Aborted s) else Some s
                       | _ \<Rightarrow> None)
                  | LQI \<Rightarrow>
                      (case m_request r of
                         DevicePayload device \<Rightarrow>
                           if \<not> lqiRequest A key (networkAddress (store s device))
                           then Some (setStatus key Aborted s) else Some s
                       | _ \<Rightarrow> None)
                  | Interview \<Rightarrow>
                      (case m_request r of
                         DevicePayload device \<Rightarrow>
                           (case interviewRequest H A key device s of
                              (ok, s) \<Rightarrow> if \<not> ok then Some (setStatus key Aborted s) else Some s)
                       | _ \<Rightarrow> None));
            case qmap_value (m_requests s) key of
              None \<Rightarrow> Some s
            | Some r \<Rightarrow>
                if m_status r = Finished \<or> m_status r = Aborted then Some s
                else Some (setStatus key Sent s)
          })"

text \<open>
  The first loop walks the map in key order while its body may insert entries (an
  interview that completes enqueues the reporting configuration); the iterator moves to
  the next key of the map as it then is. \<open>nextKey k m\<close> is the first key of \<open>m\<close> that
  is at least \<open>k\<close>.
\<close>

definition nextKey :: "nat \<Rightarrow> (8 word \<times> 'v) list \<Rightarrow> 8 word option" where
  "nextKey k m = map_option fst (find (\<lambda>(key, v). k \<le> unat key) m)"

function sendRequests :: "Headers \<Rightarrow> Adapter \<Rightarrow> nat \<Rightarrow> ZigBee \<Rightarrow> ZigBee option" where
  "sendRequests H A k s =
     (case nextKey k (m_requests s) of
        None \<Rightarrow> Some s
      | Some key \<Rightarrow>
          (case sendRequest H A key s of
             None \<Rightarrow> None
           | Some s' \<Rightarrow> sendRequests H A (Suc (unat key)) s'))"
  by pat_completeness auto
termination
proof (relation "measure (\<lambda>(H, A, k, s). 256 - k)")
  show "wf (measure (\<lambda>(H, A, k, s). 256 - k))"
    by simp
next
  fix H :: Headers and A :: Adapter and k :: nat and s s' :: ZigBee and key :: "8 word"
  assume nk: "nextKey k (m_requests s) = Some key"
  then obtain v where "find (\<lambda>(key, v). k \<le> unat key) (m_requests s) = Some (key, v)"
    by (auto simp add: nextKey_def)
  then have "k \<le> unat key"
    by (auto simp add: find_Some_iff)
  moreover have "unat key < 256"
    using unsigned_less [of key, where ?'a = nat] by simp
  ultimately show "((H, A, Suc (unat key), s'), (H, A, k, s)) \<in> measure (\<lambda>(H, A, k, s). 256 - k)"
    by simp
qed

text \<open>
  The erase loops of \<open>handleRequests\<close> and \<open>coordinatorReady\<close> have one shape:
  \<open>erase(it++)\<close> leaves the iterator on the following entry, and the loop header then
  advances it once more, unless the end was reached.
\<close>

fun erase_pass :: "('a \<Rightarrow> bool) \<Rightarrow> 'a list \<Rightarrow> 'a list" where
  "erase_pass P [] = []"
| "erase_pass P [x] = (if P x then [] else [x])"
| "erase_pass P (x # y # xs) =
     (if P x then y # erase_pass P xs else x # erase_pass P (y # xs))"

definition finished_or_aborted :: "8 word \<times> RequestObject \<Rightarrow> bool" where
  "finished_or_aborted kr = (m_status (snd kr) = Finished \<or> m_status (snd kr) = Aborted)"

definition handleRequests :: "Headers \<Rightarrow> Adapter \<Rightarrow> ZigBee \<Rightarrow> ZigBee option" where
  "handleRequests H A s =
     do {
       s \<leftarrow> sendRequests H A 0 s;
       Some (s\<lparr>m_requests := erase_pass finished_or_aborted (m_requests s),
               m_requestTimer := False\<rparr>)
     }"

subsection \<open>Adapter start\<close>

text \<open>
  \<open>coordinatorReady\<close>: the catalogue key is the adapter address with its bytes
  reversed. The third constructor argument is the display name.
\<close>

definition coordinatorReady :: "Adapter \<Rightarrow> ZigBee \<Rightarrow> ZigBee" where
  "coordinatorReady A s =
     (let ieee = rev (adapterAddress A);
          device = allocated s;
          s = s\<lparr>store := (store s)(device := DeviceObject_new ieee 0x0000 ''HOMEd Coordinator''),
                allocated := Suc (allocated s)\<rparr>;
          s = s\<lparr>m_devices :=
                  erase_pass (\<lambda>(k, dv). k = ieee \<or> logicalType (store s dv) = Coordinator)
                    (m_devices s)\<rparr>;
          s = upd_device device (\<lambda>d. d\<lparr>logicalType := Coordinator, interviewFinished := True\<rparr>) s;
          s = s\<lparr>m_devices := qmap_insert ieee device (m_devices s)\<rparr>;
          s = (if m_requests s \<noteq> [] then s\<lparr>m_requestTimer := True\<rparr> else s)
      in emit StoreDatabase s)"


section \<open>Observations used in the statements\<close>

text \<open>The property objects of a device, endpoint by endpoint.\<close>

definition propertiesOf :: "ZigBee \<Rightarrow> Device \<Rightarrow> (8 word \<times> PropertyObject list) list" where
  "propertiesOf s device = map (\<lambda>(k, e). (k, properties e)) (endpoints (store s device))"

text \<open>
  The record the specification asks for in answer to one attribute id of a
  \<open>CMD_READ_ATTRIBUTES\<close>: the id, then on the Time cluster for attribute 0x0000
  success, \<open>UTC_TIME\<close> and the seconds since 2000-01-01; for 0x0002 the offset from UTC
  as a signed 32-bit value; for 0x0007 the local time; for every other attribute, and
  on every other cluster, \<open>STATUS_UNSUPPORTED_ATTRIBUTE\<close>.
\<close>

definition attributeRecord :: "Headers \<Rightarrow> QDateTime \<Rightarrow> 16 word \<Rightarrow> 16 word \<Rightarrow> QByteArray" where
  "attributeRecord H now clusterId attributeId =
     toLittleEndian16 attributeId
     @ (if clusterId = CLUSTER_TIME \<and> attributeId = 0x0000
        then [0x00, 0xE2] @ toLittleEndian32 (toTime_t now - 946684800)
        else if clusterId = CLUSTER_TIME \<and> attributeId = 0x0002
        then [0x00, 0x2B] @ toLittleEndian32 (offsetFromUtc now)
        else if clusterId = CLUSTER_TIME \<and> attributeId = 0x0007
        then [0x00, 0x23] @ toLittleEndian32 (toTime_t now + offsetFromUtc now - 946684800)
        else [STATUS_UNSUPPORTED_ATTRIBUTE H])"


text \<open>What the invariant on names reads of a device.\<close>

definition ident :: "DeviceObject \<Rightarrow> QString \<times> QString \<times> bool" where
  "ident d = (manufacturerName d, modelName d, interviewFinished d)"

text \<open>
  The guard of the LUMI join quirk in \<open>parseAttribute\<close>: a model name that starts
  with "lumi.sensor" arrives while the manufacturer name is still empty.
\<close>

definition lumiJoin ::
  "Headers \<Rightarrow> ZigBee \<Rightarrow> Device \<Rightarrow> 16 word \<Rightarrow> 16 word \<Rightarrow> 8 word \<Rightarrow> QByteArray \<Rightarrow> bool" where
  "lumiJoin H s d c a t data =
     (c = CLUSTER_BASIC \<and> a = 0x0005 \<and> t = DATA_TYPE_CHARACTER_STRING
      \<and> manufacturerName (store s d) = []
      \<and> startsWith (trimmed H (QString_of H data)) (QString_literal ''lumi.sensor''))"



text \<open>
  What an event does to the request table: an enqueued request goes into the table
  under its id, every other event leaves the table alone.
\<close>

fun requestOf :: "Event \<Rightarrow> (8 word \<times> RequestObject) list \<Rightarrow> (8 word \<times> RequestObject) list" where
  "requestOf (Enqueued i r) m = qmap_insert i r m"
| "requestOf e m = m"

text \<open>
  \<open>extends P s s'\<close>: the run from \<open>s\<close> to \<open>s'\<close> added events to the trace, each of
  which satisfies \<open>P\<close>, and the request table of \<open>s'\<close> is that of \<open>s\<close> with the
  requests of these events put in, in order.
\<close>

definition extends :: "(Event \<Rightarrow> bool) \<Rightarrow> ZigBee \<Rightarrow> ZigBee \<Rightarrow> bool" where
  "extends P s s' =
     (\<exists>evs. trace s' = trace s @ evs \<and> list_all P evs
            \<and> m_requests s' = fold requestOf evs (m_requests s))"

text \<open>The ids of a device's endpoints.\<close>

definition endpointIds :: "ZigBee \<Rightarrow> Device \<Rightarrow> 8 word list" where
  "endpointIds s device = map fst (endpoints (store s device))"


section \<open>An instance of the parameters\<close>

text \<open>
  Concrete header parameters, with the command ids, status codes and struct layouts of
  the ZigBee Cluster Library, the TUYA header with a one-byte length, the text
  functions of Qt and a registry that gives every endpoint one on/off property, and two
  adapters, one that accepts every request and one that refuses every request. They
  serve to instantiate the theorems at concrete inputs.
\<close>

definition u16At :: "QByteArray \<Rightarrow> nat \<Rightarrow> 16 word option" where
  "u16At d i = do { b0 \<leftarrow> at' d i; b1 \<leftarrow> at' d (i + 1); Some (fromLittleEndian16 b0 b1) }"

definition u32At :: "QByteArray \<Rightarrow> nat \<Rightarrow> 32 word option" where
  "u32At d i =
     do {
       b0 \<leftarrow> at' d i; b1 \<leftarrow> at' d (i + 1); b2 \<leftarrow> at' d (i + 2); b3 \<leftarrow> at' d (i + 3);
       Some (fromBigEndian32 b3 b2 b1 b0)
     }"

definition zcl_zclDataSize :: "8 word \<Rightarrow> nat" where
  "zcl_zclDataSize dataType =
     (if dataType \<in> set [0x10, 0x18, 0x20, 0x28, 0x30] then 1
      else if dataType \<in> set [0x21, 0x29] then 2
      else if dataType \<in> set [0x23, 0x2B, 0x39, 0xE2] then 4
      else if dataType = 0xF0 then 8
      else 0)"

definition zcl_zclDataSizeAt :: "8 word \<Rightarrow> QByteArray \<Rightarrow> 8 word \<Rightarrow> (8 word \<times> 8 word) option" where
  "zcl_zclDataSizeAt dataType payload offset =
     (if dataType = 0x41 \<or> dataType = 0x42
      then do { n \<leftarrow> at' payload (unat offset); Some (n, offset + 1) }
      else Some (of_nat (zcl_zclDataSize dataType), offset))"

text \<open>
  Three layouts of the TUYA header, each of six bytes with the data point in byte 2 and
  the data type in byte 3. In the first two the length is the 16-bit field of the
  specification in bytes 4 and 5, which holds the length big-endian on the wire and is
  read by the host in its own byte order, little-endian or big-endian. In the third
  the length is the single byte 5.
\<close>

definition tuya_length16 :: "bool \<Rightarrow> tuyaHeaderLayout" where
  "tuya_length16 bigEndianHost =
     \<lparr>sizeof_tuyaHeaderStruct = 6,
      tuyaHeader_dataPoint = (\<lambda>payload. constData payload 2),
      tuyaHeader_dataType = (\<lambda>payload. constData payload 3),
      tuyaHeader_length =
        (\<lambda>payload. do {
           b0 \<leftarrow> constData payload 4;
           b1 \<leftarrow> constData payload 5;
           Some (unat (if bigEndianHost then fromBigEndian16 b0 b1
                       else fromLittleEndian16 b0 b1))
         })\<rparr>"

definition tuya_length8 :: tuyaHeaderLayout where
  "tuya_length8 =
     \<lparr>sizeof_tuyaHeaderStruct = 6,
      tuyaHeader_dataPoint = (\<lambda>payload. constData payload 2),
      tuyaHeader_dataType = (\<lambda>payload. constData payload 3),
      tuyaHeader_length = (\<lambda>payload. map_option unat (constData payload 5))\<rparr>"

text \<open>
  An instance of the two text functions, after Qt 5. \<open>QString(const QByteArray &)\<close>
  takes the bytes up to the first zero byte and decodes them as UTF-8 into UTF-16 code
  units: a byte-order mark at the start is skipped, and a byte that does not begin a
  well-formed sequence (a stray continuation byte, an overlong form, an encoded
  surrogate, a value above U+10FFFF, a sequence cut short) yields U+FFFD, after which
  decoding goes on with the next byte. \<open>QChar::isSpace\<close> holds for U+0020, U+0009 to
  U+000D, U+0085, U+00A0 and the characters of the Unicode separator categories.
\<close>

definition utf8_continuation :: "8 word \<Rightarrow> bool" where
  "utf8_continuation b = (b AND 0xC0 = 0x80)"

definition utf8_sequence :: "8 word \<Rightarrow> QByteArray \<Rightarrow> (nat \<times> nat) option" where
  "utf8_sequence b bs =
     (let n = (if 0xC2 \<le> b \<and> b < 0xE0 then 1
               else if 0xE0 \<le> b \<and> b < 0xF0 then 2
               else if 0xF0 \<le> b \<and> b < 0xF5 then 3
               else 0 :: nat);
          mask = (if n = 1 then 0x1F else if n = 2 then 0x0F else 0x07 :: 8 word);
          least = (if n = 1 then 0x80 else if n = 2 then 0x800 else 0x10000 :: nat);
          cp = fold (\<lambda>c v. v * 64 + unat (c AND 0x3F)) (take n bs) (unat (b AND mask))
      in if n = 0 \<or> length bs < n \<or> \<not> list_all utf8_continuation (take n bs)
            \<or> cp < least \<or> (0xD800 \<le> cp \<and> cp < 0xE000) \<or> 0x10FFFF < cp
         then None
         else Some (cp, n))"

definition utf16 :: "nat \<Rightarrow> QString" where
  "utf16 cp =
     (if cp < 0x10000 then [of_nat cp]
      else [of_nat (0xD800 + (cp - 0x10000) div 1024),
            of_nat (0xDC00 + (cp - 0x10000) mod 1024)])"

function fromUtf8 :: "QByteArray \<Rightarrow> QString" where
  "fromUtf8 [] = []"
| "fromUtf8 (b # bs) =
     (if b < 0x80 then ucast b # fromUtf8 bs
      else case utf8_sequence b bs of
        None \<Rightarrow> 0xFFFD # fromUtf8 bs
      | Some (cp, n) \<Rightarrow> utf16 cp @ fromUtf8 (drop n bs))"
  by pat_completeness auto
termination
  by (relation "measure length") auto

definition qt_QString_of :: "QByteArray \<Rightarrow> QString" where
  "qt_QString_of data =
     (let bytes = takeWhile (\<lambda>b. b \<noteq> 0) data
      in fromUtf8 (if take 3 bytes = [0xEF, 0xBB, 0xBF] then drop 3 bytes else bytes))"

definition qt_isSpace :: "QChar \<Rightarrow> bool" where
  "qt_isSpace c =
     (c = 0x0020 \<or> (0x0009 \<le> c \<and> c \<le> 0x000D) \<or> c = 0x0085 \<or> c = 0x00A0 \<or> c = 0x1680
      \<or> (0x2000 \<le> c \<and> c \<le> 0x200A) \<or> c = 0x2028 \<or> c = 0x2029 \<or> c = 0x202F
      \<or> c = 0x205F \<or> c = 0x3000)"

definition zcl :: Headers where
  "zcl =
     \<lparr>CMD_READ_ATTRIBUTES = 0x00,
      CMD_READ_ATTRIBUTES_RESPONSE = 0x01,
      CMD_WRITE_ATTRIBUTES = 0x02,
      CMD_WRITE_ATTRIBUTES_RESPONSE = 0x04,
      CMD_CONFIGURE_REPORTING = 0x06,
      CMD_CONFIGURE_REPORTING_RESPONSE = 0x07,
      CMD_REPORT_ATTRIBUTES = 0x0A,
      CMD_DEFAULT_RESPONSE = 0x0B,
      STATUS_UNSUPPORTED_ATTRIBUTE = 0x86,
      STATUS_NO_IMAGE_AVAILABLE = 0x98,
      POWER_SOURCE_BATTERY = 0x03,
      zclDataSize = zcl_zclDataSize,
      zclDataSizeAt = zcl_zclDataSizeAt,
      configureReportingItem =
        (\<lambda>r a. [0x00] @ toLittleEndian16 a @ [r_dataType r]
                @ toLittleEndian16 (r_minInterval r) @ toLittleEndian16 (r_maxInterval r)
                @ take (zcl_zclDataSize (r_dataType r)) (toLittleEndian16 (r_valueChange r))),
      defaultDstAddress = [],
      defaultDstEndpointId = 0x00,
      defaultUnbind = False,
      registry =
        (\<lambda>manufacturer model endpointId.
           ([\<lparr>kind = Status, m_name = ''status'', m_clusterId = 0x0006,
              m_value = Invalid\<rparr>], [])),
      groupControlResponse =
        (\<lambda>d. do { st \<leftarrow> at' d 0; g \<leftarrow> u16At d 1; Some (st, g) }),
      otaFileHeader =
        (\<lambda>d. do {
           mc \<leftarrow> u16At d 10; it \<leftarrow> u16At d 12; fv \<leftarrow> u32At d 14; sz \<leftarrow> u32At d 52;
           Some \<lparr>h_manufacturerCode = mc, h_imageType = it, h_fileVersion = fv,
                 h_imageSize = sz\<rparr>
         }),
      otaNextImageRequest =
        (\<lambda>d. do {
           mc \<leftarrow> u16At d 1; it \<leftarrow> u16At d 3; fv \<leftarrow> u32At d 5;
           Some \<lparr>nq_manufacturerCode = mc, nq_imageType = it, nq_fileVersion = fv\<rparr>
         }),
      otaNextImageResponse =
        (\<lambda>r. [nr_status r] @ toLittleEndian16 (nr_manufacturerCode r)
             @ toLittleEndian16 (nr_imageType r) @ toLittleEndian32 (nr_fileVersion r)
             @ toLittleEndian32 (nr_imageSize r)),
      otaImageBlockRequest =
        (\<lambda>d. do {
           mc \<leftarrow> u16At d 1; it \<leftarrow> u16At d 3; fv \<leftarrow> u32At d 5; off \<leftarrow> u32At d 9;
           n \<leftarrow> at' d 13;
           Some \<lparr>bq_manufacturerCode = mc, bq_imageType = it, bq_fileVersion = fv,
                 bq_fileOffset = off, bq_dataSizeMax = n\<rparr>
         }),
      otaImageBlockResponse =
        (\<lambda>r. [br_status r] @ toLittleEndian16 (br_manufacturerCode r)
             @ toLittleEndian16 (br_imageType r) @ toLittleEndian32 (br_fileVersion r)
             @ toLittleEndian32 (br_fileOffset r) @ [br_dataSize r]),
      otaUpgradeEndRequest =
        (\<lambda>d. do {
           st \<leftarrow> at' d 0; mc \<leftarrow> u16At d 1; it \<leftarrow> u16At d 3; fv \<leftarrow> u32At d 5;
           Some \<lparr>eq_status = st, eq_manufacturerCode = mc, eq_imageType = it,
                 eq_fileVersion = fv\<rparr>
         }),
      otaUpgradeEndResponse =
        (\<lambda>r. toLittleEndian16 (er_manufacturerCode r) @ toLittleEndian16 (er_imageType r)
             @ toLittleEndian32 (er_fileVersion r) @ toLittleEndian32 (er_currentTime r)
             @ toLittleEndian32 (er_upgradeTime r)),
      tuyaHeader = tuya_length8,
      QString_of = qt_QString_of,
      isSpace = qt_isSpace\<rparr>"

definition adapter :: "bool \<Rightarrow> Adapter" where
  "adapter accepts =
     \<lparr>adapterAddress = [0x08, 0x07, 0x06, 0x05, 0x04, 0x03, 0x02, 0x01],
      nodeDescriptorRequest = (\<lambda>i nwk. accepts),
      activeEndpointsRequest = (\<lambda>i nwk. accepts),
      simpleDescriptorRequest = (\<lambda>i nwk e. accepts),
      dataRequest = (\<lambda>i nwk e c d. accepts),
      bindRequest = (\<lambda>i nwk ieee e c dst de u. accepts),
      leaveRequest = (\<lambda>i nwk ieee. accepts),
      lqiRequest = (\<lambda>i nwk. accepts)\<rparr>"

text \<open>An engine that has just been constructed: nothing in the catalogue or the table.\<close>

definition ZigBee_new :: ZigBee where
  "ZigBee_new =
     \<lparr>store = (\<lambda>device. DeviceObject_new [] 0x0000 []), allocated = 0, m_devices = [],
      m_requests = [], m_requestId = 0, m_requestTimer = False, m_otaUpgradeFile = [],
      trace = []\<rparr>"

text \<open>
  A device that has joined and is not yet interviewed, with one endpoint that carries
  an on/off property, and an engine that knows this device only.
\<close>

definition example_device :: DeviceObject where
  "example_device =
     (DeviceObject_new [0x00, 0x15, 0x8D, 0x00, 0x01, 0x02, 0x03, 0x04] 0x1234 ''sensor'')
       \<lparr>endpoints :=
          [(0x01, (EndpointObject_new 0x01)
                    \<lparr>properties :=
                       [\<lparr>kind = Status, m_name = ''status'', m_clusterId = 0x0006,
                         m_value = Invalid\<rparr>]\<rparr>)]\<rparr>"

definition example_state :: ZigBee where
  "example_state =
     ZigBee_new
       \<lparr>store := (store ZigBee_new)(0 := example_device), allocated := 1,
        m_devices := [([0x00, 0x15, 0x8D, 0x00, 0x01, 0x02, 0x03, 0x04], 0)]\<rparr>"

text \<open>
  An OTA image file: manufacturer code 0x115F, image type 0x0001, file version
  0x00010002, image size 1024 in its header, then the image.
\<close>

definition example_image :: QByteArray where
  "example_image =
     replicate 10 0x00 @ [0x5F, 0x11, 0x01, 0x00, 0x02, 0x00, 0x01, 0x00]
     @ replicate 34 0x00 @ [0x00, 0x04, 0x00, 0x00] @ replicate 1024 0xAA"

text \<open>
  The example device after its interview, and the same once its on/off property has
  been reported as on.
\<close>

definition interviewed_state :: ZigBee where
  "interviewed_state =
     upd_device 0
       (\<lambda>d. d\<lparr>manufacturerName := QString_literal ''IKEA'',
               modelName := QString_literal ''bulb'', interviewFinished := True\<rparr>)
       example_state"

definition reported_state :: ZigBee where
  "reported_state =
     upd_endpoint (0, 0x01)
       (\<lambda>e. e\<lparr>properties :=
                  [\<lparr>kind = Status, m_name = ''status'', m_clusterId = 0x0006,
                    m_value = VString ''on''\<rparr>],
                updated := True\<rparr>)
       interviewed_state"




section \<open>Properties of the parsers\<close>

lemmas DATA_TYPE_defs =
  DATA_TYPE_BOOLEAN_def DATA_TYPE_8BIT_BITMAP_def DATA_TYPE_8BIT_UNSIGNED_def
  DATA_TYPE_16BIT_UNSIGNED_def DATA_TYPE_32BIT_UNSIGNED_def DATA_TYPE_16BIT_SIGNED_def
  DATA_TYPE_32BIT_SIGNED_def DATA_TYPE_8BIT_ENUM_def DATA_TYPE_SINGLE_PRECISION_def
  DATA_TYPE_OCTET_STRING_def DATA_TYPE_CHARACTER_STRING_def DATA_TYPE_UTC_TIME_def
  DATA_TYPE_IEEE_ADDRESS_def

lemmas parser_defs =
  BatteryVoltage_parseAttribte_def Status_parseAttribte_def Contact_parseAttribte_def
  PowerOnStatus_parseAttribte_def Level_parseAttribte_def ColorTemperature_parseAttribte_def
  Occupancy_parseAttribte_def PTVO_ChangePattern_parseAttribte_def
  PTVO_SwitchAction_parseAttribte_def LUMI_ButtonAction_parseAttribte_def
  LUMI_SwitchAction_parseAttribte_def LUMI_CubeMovement_parseAttribte_def
  Unknown_parseAttribte_def TUYA_PowerOnStatus_parseAttribte_def
  TUYA_SwitchType_parseAttribte_def

lemma percentage_battery:
  "uint (percentage 2850 3200 (of_int mv)) = linear_percent_clipped mv"
proof -
  consider "mv \<le> 2850" | "2850 < mv" "mv < 3200" | "3200 \<le> mv" by linarith
  then show ?thesis
  proof cases
    case 1
    then show ?thesis
      by (auto simp add: percentage_def linear_percent_clipped_def Let_def)
  next
    case 2
    have "(real_of_int mv - 2850) / (3200 - 2850) * 100
          = real_of_int ((mv - 2850) * 100) / real_of_int 350"
      by simp
    then have fl:
      "\<lfloor>(real_of_int mv - 2850) / (3200 - 2850) * 100\<rfloor> = (mv - 2850) * 100 div 350"
      by (simp only: floor_divide_of_int_eq)
    have lo: "0 \<le> (mv - 2850) * 100 div 350" using 2 by simp
    have hi: "(mv - 2850) * 100 div 350 < 256" using 2 by simp
    have "uint (word_of_int ((mv - 2850) * 100 div 350) :: 8 word)
          = (mv - 2850) * 100 div 350"
      using lo hi by (simp add: uint_word_of_int)
    with 2 fl show ?thesis
      by (simp add: percentage_def linear_percent_clipped_def Let_def)
  next
    case 3
    then show ?thesis
      by (auto simp add: percentage_def linear_percent_clipped_def Let_def)
  qed
qed

lemma qmap_value_insert: "qmap_value (qmap_insert k v m) k = Some v"
  by (induction m) auto

lemma qmap_insert_not_Nil: "qmap_insert k v m \<noteq> []"
  by (cases m) (auto split: if_splits)

text \<open>
  Parsers whose guard is the exact triple: a frame outside the contract leaves the
  property as it is. The Konke button is the one variant with an attribute parser that
  is not covered.
\<close>

lemma exact_triple_parsers_ignore_mismatch:
  assumes "kind p \<noteq> KonkeButtonAction"
    and "\<not> contract (kind p) attributeId dataType (length data)"
  shows "parseAttribte p attributeId dataType data = Some p"
  using assms
  by (cases "kind p") (simp_all add: parseAttribte_def contract_def parser_defs)

text \<open>
  C9. The BatteryVoltage parser, given attribute 0x0020 of type 8-bit unsigned (0x20)
  and one byte \<open>raw\<close>, stores the voltage \<open>raw * 100\<close> mV mapped linearly from
  2850..3200 mV onto 0..100 percent and clipped at both ends; the byte 0x1D gives 14.
\<close>

theorem BatteryVoltage_percent:
  "BatteryVoltage_parseAttribte p 0x0020 DATA_TYPE_8BIT_UNSIGNED [raw]
     = Some (p\<lparr>m_value := VInt (linear_percent_clipped (uint raw * 100))\<rparr>)
   \<and> BatteryVoltage_parseAttribte p 0x0020 0x20 [0x1D] = Some (p\<lparr>m_value := VInt 14\<rparr>)"
proof -
  have gen: "BatteryVoltage_parseAttribte p 0x0020 0x20 [b]
     = Some (p\<lparr>m_value := VInt (linear_percent_clipped (uint b * 100))\<rparr>)" for b
    using percentage_battery [of "uint b * 100"]
    by (simp add: BatteryVoltage_parseAttribte_def DATA_TYPE_8BIT_UNSIGNED_def at'_def)
  have "linear_percent_clipped (uint (0x1D :: 8 word) * 100) = 14"
    by (simp add: linear_percent_clipped_def)
  with gen [of "0x1D"] gen [of raw] show ?thesis
    by (simp add: DATA_TYPE_8BIT_UNSIGNED_def)
qed

theorem BatteryVoltage_percent_witness:
  "BatteryVoltage_parseAttribte
     \<lparr>kind = BatteryVoltage, m_name = ''battery'', m_clusterId = 0x0001, m_value = Invalid\<rparr>
     0x0020 0x20 [0x1F]
   = Some \<lparr>kind = BatteryVoltage, m_name = ''battery'', m_clusterId = 0x0001,
           m_value = VInt 71\<rparr>"
  using BatteryVoltage_percent
    [of "\<lparr>kind = BatteryVoltage, m_name = ''battery'', m_clusterId = 0x0001, m_value = Invalid\<rparr>"
        "0x1F"]
  by (simp add: linear_percent_clipped_def DATA_TYPE_8BIT_UNSIGNED_def)

text \<open>
  C4, as stated, fails: with data type 0x39 (single-precision float) the CubeMovement
  parser rejects the frame and the value stays what it was.
\<close>

theorem CubeMovement_type_0x39_counterexample:
  "LUMI_CubeMovement_parseAttribte
     \<lparr>kind = LUMI_CubeMovement, m_name = ''action'', m_clusterId = 0x0012, m_value = Invalid\<rparr>
     0x0055 0x39 [0x82, 0x00]
   = Some \<lparr>kind = LUMI_CubeMovement, m_name = ''action'', m_clusterId = 0x0012,
           m_value = Invalid\<rparr>
   \<and> Invalid \<noteq> VString ''flip''"
  by (simp add: LUMI_CubeMovement_parseAttribte_def DATA_TYPE_16BIT_UNSIGNED_def)

text \<open>
  C4, amended. The CubeMovement parser, given attribute 0x0055 with data type 0x21
  (16-bit unsigned) and a two-byte little-endian payload, stores "flip" for the value
  130, "shake" for 0 and "wake" for 2; a frame of data type 0x39 changes nothing.
\<close>

theorem CubeMovement_type_0x21:
  "LUMI_CubeMovement_parseAttribte p 0x0055 0x21 [0x82, 0x00]
     = Some (p\<lparr>m_value := VString ''flip''\<rparr>)
   \<and> LUMI_CubeMovement_parseAttribte p 0x0055 0x21 [0x00, 0x00]
     = Some (p\<lparr>m_value := VString ''shake''\<rparr>)
   \<and> LUMI_CubeMovement_parseAttribte p 0x0055 0x21 [0x02, 0x00]
     = Some (p\<lparr>m_value := VString ''wake''\<rparr>)
   \<and> LUMI_CubeMovement_parseAttribte p 0x0055 0x39 data = Some p"
  by (simp add: LUMI_CubeMovement_parseAttribte_def DATA_TYPE_16BIT_UNSIGNED_def constData_def
      fromLittleEndian16_def Let_def)

theorem CubeMovement_type_0x21_witness:
  "LUMI_CubeMovement_parseAttribte
     \<lparr>kind = LUMI_CubeMovement, m_name = ''action'', m_clusterId = 0x0012, m_value = Invalid\<rparr>
     0x0055 0x21 [0x82, 0x00]
   = Some \<lparr>kind = LUMI_CubeMovement, m_name = ''action'', m_clusterId = 0x0012,
           m_value = VString ''flip''\<rparr>"
  using CubeMovement_type_0x21
    [of "\<lparr>kind = LUMI_CubeMovement, m_name = ''action'', m_clusterId = 0x0012,
          m_value = Invalid\<rparr>"]
  by simp

text \<open>
  The TUYA frame of C5: status and transaction id, data point 0x07, data type 0x02, the
  length 0x0004 big-endian in bytes 4 and 5, value 00 00 00 2A. A host that reads bytes
  4 and 5 as a 16-bit field in little-endian order sees the length 1024.
\<close>

lemma tuya_frame_length:
  "tuyaHeader_length (tuya_length16 False)
     [st, tid, 0x07, 0x02, 0x00, 0x04, 0x00, 0x00, 0x00, 0x2A] = Some 1024"
  "tuyaHeader_length (tuya_length16 True)
     [st, tid, 0x07, 0x02, 0x00, 0x04, 0x00, 0x00, 0x00, 0x2A] = Some 4"
  "tuyaHeader_length tuya_length8
     [st, tid, 0x07, 0x02, 0x00, 0x04, 0x00, 0x00, 0x00, 0x2A] = Some 4"
  by (simp_all add: tuya_length16_def tuya_length8_def constData_def fromBigEndian16_def
      fromLittleEndian16_def)

lemma tuya_frame_fields:
  "tuyaHeader_dataType (tuya_length16 h)
     [st, tid, 0x07, 0x02, 0x00, 0x04, 0x00, 0x00, 0x00, 0x2A] = Some 0x02"
  "tuyaHeader_dataPoint (tuya_length16 h)
     [st, tid, 0x07, 0x02, 0x00, 0x04, 0x00, 0x00, 0x00, 0x2A] = Some 0x07"
  "midFrom [st, tid, 0x07, 0x02, 0x00, 0x04, 0x00, 0x00, 0x00, 0x2A]
     (sizeof_tuyaHeaderStruct (tuya_length16 h)) = [0x00, 0x00, 0x00, 0x2A]"
  "tuyaHeader_dataType tuya_length8
     [st, tid, 0x07, 0x02, 0x00, 0x04, 0x00, 0x00, 0x00, 0x2A] = Some 0x02"
  "tuyaHeader_dataPoint tuya_length8
     [st, tid, 0x07, 0x02, 0x00, 0x04, 0x00, 0x00, 0x00, 0x2A] = Some 0x07"
  "midFrom [st, tid, 0x07, 0x02, 0x00, 0x04, 0x00, 0x00, 0x00, 0x2A]
     (sizeof_tuyaHeaderStruct tuya_length8) = [0x00, 0x00, 0x00, 0x2A]"
  by (simp_all add: tuya_length16_def tuya_length8_def constData_def midFrom_def)

lemma TUYA_Data_parseData_value:
  assumes "tuyaHeader_dataType T payload = Some 0x02"
    and "tuyaHeader_length T payload = Some n"
  shows "TUYA_Data_parseData T payload [0x00, 0x00, 0x00, 0x2A]
         = Some (if n = 4 then VUInt 42 else Invalid)"
  using assms
  by (simp add: TUYA_Data_parseData_def constData_def fromBigEndian32_def)

lemma PresenceSensor_update_0x07: "PresenceSensor_update p 0x07 v = Some p"
proof -
  have "toMap (m_value p) \<noteq> [] \<Longrightarrow> p\<lparr>m_value := VMap (toMap (m_value p))\<rparr> = p"
    by (cases "m_value p") auto
  then show ?thesis
    by (simp add: PresenceSensor_update_def Let_def)
qed

lemma NeoSiren_update_0x07:
  "NeoSiren_update p 0x07 (VUInt 42)
   = Some (p\<lparr>m_value := VMap (qmap_insert ''duration'' (VInt 42) (toMap (m_value p)))\<rparr>)"
  by (simp add: NeoSiren_update_def Let_def qmap_insert_not_Nil)

lemma TUYA_frame_parseCommand:
  assumes "tuyaHeader_dataType T payload = Some 0x02"
    and "tuyaHeader_dataPoint T payload = Some 0x07"
    and "tuyaHeader_length T payload = Some n"
    and "midFrom payload (sizeof_tuyaHeaderStruct T) = [0x00, 0x00, 0x00, 0x2A]"
  shows "TUYA_Data_parseCommand T NeoSiren_update p 0x01 payload
         = Some (if n = 4
                 then p\<lparr>m_value :=
                          VMap (qmap_insert ''duration'' (VInt 42) (toMap (m_value p)))\<rparr>
                 else p)"
    and "TUYA_Data_parseCommand T PresenceSensor_update p 0x01 payload = Some p"
  using assms(2) TUYA_Data_parseData_value [OF assms(1,3)]
  by (simp_all add: TUYA_Data_parseCommand_def assms(4) NeoSiren_update_0x07
      PresenceSensor_update_0x07)

text \<open>
  C5, as stated, fails: the PresenceSensor has no data point 0x07. Whichever way the
  header's length is laid out, its value stays invalid and holds no duration.
\<close>

theorem PresenceSensor_duration_counterexample:
  "parseCommand tuya_length8
     \<lparr>kind = TUYA_PresenceSensor, m_name = ''presence'', m_clusterId = 0xEF00,
      m_value = Invalid\<rparr>
     0x01 [0x00, 0x00, 0x07, 0x02, 0x00, 0x04, 0x00, 0x00, 0x00, 0x2A]
   = Some \<lparr>kind = TUYA_PresenceSensor, m_name = ''presence'', m_clusterId = 0xEF00,
           m_value = Invalid\<rparr>
   \<and> parseCommand (tuya_length16 True)
     \<lparr>kind = TUYA_PresenceSensor, m_name = ''presence'', m_clusterId = 0xEF00,
      m_value = Invalid\<rparr>
     0x01 [0x00, 0x00, 0x07, 0x02, 0x00, 0x04, 0x00, 0x00, 0x00, 0x2A]
   = Some \<lparr>kind = TUYA_PresenceSensor, m_name = ''presence'', m_clusterId = 0xEF00,
           m_value = Invalid\<rparr>
   \<and> parseCommand (tuya_length16 False)
     \<lparr>kind = TUYA_PresenceSensor, m_name = ''presence'', m_clusterId = 0xEF00,
      m_value = Invalid\<rparr>
     0x01 [0x00, 0x00, 0x07, 0x02, 0x00, 0x04, 0x00, 0x00, 0x00, 0x2A]
   = Some \<lparr>kind = TUYA_PresenceSensor, m_name = ''presence'', m_clusterId = 0xEF00,
           m_value = Invalid\<rparr>
   \<and> qmap_value (toMap Invalid) ''duration'' \<noteq> Some (VInt 42)"
  by (simp add: parseCommand_def
      TUYA_frame_parseCommand(2) [OF tuya_frame_fields(4,5) tuya_frame_length(3)
        tuya_frame_fields(6)]
      TUYA_frame_parseCommand(2) [OF tuya_frame_fields(1,2) tuya_frame_length(2)
        tuya_frame_fields(3)]
      TUYA_frame_parseCommand(2) [OF tuya_frame_fields(1,2) tuya_frame_length(1)
        tuya_frame_fields(3)])

text \<open>
  C5, amended. On cluster command 0x01 with a header that carries data point 0x07 and
  data type 0x02, followed by the value 00 00 00 2A, the PresenceSensor property leaves
  its value unchanged. The NeoSiren property stores duration = 42 in its value map, and
  does so exactly when the header's length field, which the code compares without
  byte-order conversion, reads 4 on the host. For the frame whose bytes 4 and 5 hold
  the length 0x0004 big-endian that is the case where the length is the single byte 5
  and where a big-endian host reads a 16-bit length; a little-endian host that reads
  a 16-bit length sees 1024 and the NeoSiren property ignores the frame.
\<close>

theorem NeoSiren_duration:
  "(tuyaHeader_dataType T payload = Some 0x02 \<and> tuyaHeader_dataPoint T payload = Some 0x07
      \<and> tuyaHeader_length T payload = Some n
      \<and> midFrom payload (sizeof_tuyaHeaderStruct T) = [0x00, 0x00, 0x00, 0x2A]
    \<longrightarrow> TUYA_Data_parseCommand T NeoSiren_update p 0x01 payload
          = Some (if n = 4
                  then p\<lparr>m_value :=
                           VMap (qmap_insert ''duration'' (VInt 42) (toMap (m_value p)))\<rparr>
                  else p)
        \<and> TUYA_Data_parseCommand T PresenceSensor_update p 0x01 payload = Some p)
   \<and> qmap_value (qmap_insert ''duration'' (VInt 42) (toMap (m_value p))) ''duration''
     = Some (VInt 42)
   \<and> parseCommand tuya_length8 (p\<lparr>kind := TUYA_NeoSiren\<rparr>) 0x01
       [st, tid, 0x07, 0x02, 0x00, 0x04, 0x00, 0x00, 0x00, 0x2A]
     = Some (p\<lparr>kind := TUYA_NeoSiren,
               m_value := VMap (qmap_insert ''duration'' (VInt 42) (toMap (m_value p)))\<rparr>)
   \<and> parseCommand (tuya_length16 True) (p\<lparr>kind := TUYA_NeoSiren\<rparr>) 0x01
       [st, tid, 0x07, 0x02, 0x00, 0x04, 0x00, 0x00, 0x00, 0x2A]
     = Some (p\<lparr>kind := TUYA_NeoSiren,
               m_value := VMap (qmap_insert ''duration'' (VInt 42) (toMap (m_value p)))\<rparr>)
   \<and> parseCommand (tuya_length16 False) (p\<lparr>kind := TUYA_NeoSiren\<rparr>) 0x01
       [st, tid, 0x07, 0x02, 0x00, 0x04, 0x00, 0x00, 0x00, 0x2A]
     = Some (p\<lparr>kind := TUYA_NeoSiren\<rparr>)"
proof -
  let ?frame = "[st, tid, 0x07, 0x02, 0x00, 0x04, 0x00, 0x00, 0x00, 0x2A]"
  let ?q = "p\<lparr>kind := TUYA_NeoSiren\<rparr>"
  have general:
    "tuyaHeader_dataType T payload = Some 0x02 \<and> tuyaHeader_dataPoint T payload = Some 0x07
      \<and> tuyaHeader_length T payload = Some n
      \<and> midFrom payload (sizeof_tuyaHeaderStruct T) = [0x00, 0x00, 0x00, 0x2A]
    \<longrightarrow> TUYA_Data_parseCommand T NeoSiren_update p 0x01 payload
          = Some (if n = 4
                  then p\<lparr>m_value :=
                           VMap (qmap_insert ''duration'' (VInt 42) (toMap (m_value p)))\<rparr>
                  else p)
        \<and> TUYA_Data_parseCommand T PresenceSensor_update p 0x01 payload = Some p"
    using TUYA_frame_parseCommand [of T payload n p] by blast
  have held: "qmap_value (qmap_insert ''duration'' (VInt 42) (toMap (m_value p))) ''duration''
     = Some (VInt 42)"
    by (rule qmap_value_insert)
  have byte: "parseCommand tuya_length8 ?q 0x01 ?frame
     = Some (p\<lparr>kind := TUYA_NeoSiren,
               m_value := VMap (qmap_insert ''duration'' (VInt 42) (toMap (m_value p)))\<rparr>)"
    by (simp add: parseCommand_def
        TUYA_frame_parseCommand(1) [OF tuya_frame_fields(4,5) tuya_frame_length(3)
          tuya_frame_fields(6)])
  have big: "parseCommand (tuya_length16 True) ?q 0x01 ?frame
     = Some (p\<lparr>kind := TUYA_NeoSiren,
               m_value := VMap (qmap_insert ''duration'' (VInt 42) (toMap (m_value p)))\<rparr>)"
    by (simp add: parseCommand_def
        TUYA_frame_parseCommand(1) [OF tuya_frame_fields(1,2) tuya_frame_length(2)
          tuya_frame_fields(3)])
  have little: "parseCommand (tuya_length16 False) ?q 0x01 ?frame = Some ?q"
    by (simp add: parseCommand_def
        TUYA_frame_parseCommand(1) [OF tuya_frame_fields(1,2) tuya_frame_length(1)
          tuya_frame_fields(3)])
  from general held byte big little show ?thesis
    by blast
qed

theorem NeoSiren_duration_witness:
  "TUYA_Data_parseCommand tuya_length8 NeoSiren_update
     \<lparr>kind = TUYA_NeoSiren, m_name = ''siren'', m_clusterId = 0xEF00,
      m_value = VMap [(''alarm'', VBool False)]\<rparr>
     0x01 [0x00, 0x11, 0x07, 0x02, 0x01, 0x04, 0x00, 0x00, 0x00, 0x2A]
   = Some \<lparr>kind = TUYA_NeoSiren, m_name = ''siren'', m_clusterId = 0xEF00,
           m_value = VMap [(''alarm'', VBool False), (''duration'', VInt 42)]\<rparr>
   \<and> TUYA_Data_parseCommand (tuya_length16 False) NeoSiren_update
     \<lparr>kind = TUYA_NeoSiren, m_name = ''siren'', m_clusterId = 0xEF00,
      m_value = VMap [(''alarm'', VBool False)]\<rparr>
     0x01 [0x00, 0x11, 0x07, 0x02, 0x00, 0x04, 0x00, 0x00, 0x00, 0x2A]
   = Some \<lparr>kind = TUYA_NeoSiren, m_name = ''siren'', m_clusterId = 0xEF00,
           m_value = VMap [(''alarm'', VBool False)]\<rparr>"
  using NeoSiren_duration
    [where T = tuya_length8
       and payload = "[0x00, 0x11, 0x07, 0x02, 0x01, 0x04, 0x00, 0x00, 0x00, 0x2A]"
       and n = 4
       and p = "\<lparr>kind = TUYA_NeoSiren, m_name = ''siren'', m_clusterId = 0xEF00,
                 m_value = VMap [(''alarm'', VBool False)]\<rparr>"]
    NeoSiren_duration
    [where T = "tuya_length16 False"
       and payload = "[0x00, 0x11, 0x07, 0x02, 0x00, 0x04, 0x00, 0x00, 0x00, 0x2A]"
       and n = 1024
       and p = "\<lparr>kind = TUYA_NeoSiren, m_name = ''siren'', m_clusterId = 0xEF00,
                 m_value = VMap [(''alarm'', VBool False)]\<rparr>"]
  by (simp add: tuya_length8_def tuya_length16_def constData_def midFrom_def
      fromLittleEndian16_def)

text \<open>
  C1. A frame outside a parser's contract must leave the value unchanged. The Konke
  button parser breaks this: its guard rejects a frame only when both the attribute id
  and the data type are wrong, so attribute 0x0001 of type boolean with the byte 0x80
  sets the value to "singleClick".
\<close>

theorem KonkeButtonAction_accepts_mismatch:
  "\<not> contract KonkeButtonAction 0x0001 DATA_TYPE_BOOLEAN (length [0x80 :: 8 word])
   \<and> parseAttribte (p\<lparr>kind := KonkeButtonAction\<rparr>) 0x0001 DATA_TYPE_BOOLEAN [0x80]
     = Some (p\<lparr>kind := KonkeButtonAction, m_value := VString ''singleClick''\<rparr>)"
  by (simp add: contract_def parseAttribte_def KonkeButtonAction_parseAttribte_def at'_def)

theorem KonkeButtonAction_accepts_mismatch_witness:
  "parseAttribte
     \<lparr>kind = KonkeButtonAction, m_name = ''action'', m_clusterId = 0xFCC0, m_value = Invalid\<rparr>
     0x0001 0x10 [0x80]
   = Some \<lparr>kind = KonkeButtonAction, m_name = ''action'', m_clusterId = 0xFCC0,
           m_value = VString ''singleClick''\<rparr>"
  using KonkeButtonAction_accepts_mismatch
    [of "\<lparr>kind = KonkeButtonAction, m_name = ''action'', m_clusterId = 0xFCC0,
          m_value = Invalid\<rparr>"]
  by (simp add: DATA_TYPE_BOOLEAN_def)


section \<open>Properties of the engine\<close>

declare sendRequests.simps [simp del]

lemmas example_defs =
  example_state_def example_device_def ZigBee_new_def DeviceObject_new_def
  EndpointObject_new_def

lemmas interviewed_defs = interviewed_state_def reported_state_def example_defs


lemma zcl_fields:
  "CMD_READ_ATTRIBUTES zcl = 0x00"
  "CMD_READ_ATTRIBUTES_RESPONSE zcl = 0x01"
  "CMD_WRITE_ATTRIBUTES_RESPONSE zcl = 0x04"
  "CMD_CONFIGURE_REPORTING_RESPONSE zcl = 0x07"
  "CMD_REPORT_ATTRIBUTES zcl = 0x0A"
  "CMD_DEFAULT_RESPONSE zcl = 0x0B"
  "STATUS_UNSUPPORTED_ATTRIBUTE zcl = 0x86"
  "STATUS_NO_IMAGE_AVAILABLE zcl = 0x98"
  "zclDataSizeAt zcl = zcl_zclDataSizeAt"
  "tuyaHeader zcl = tuya_length8"
  by (simp_all add: zcl_def)


subsection \<open>What the steps leave alone\<close>

lemma store_emit [simp]: "store (emit e s) = store s"
  by (simp add: emit_def)

lemma store_enqueue [simp]: "store (enqueue r s) = store s"
  by (simp add: enqueue_def Let_def)

lemma store_enqueueBindingRequest [simp]:
  "store (enqueueBindingRequest d e c a de u s) = store s"
  by (simp add: enqueueBindingRequest_def)

lemma store_enqueueDataRequest [simp]: "store (enqueueDataRequest d e c b n s) = store s"
  by (simp add: enqueueDataRequest_def)

lemma store_enqueueDeviceRequest [simp]: "store (enqueueDeviceRequest d t s) = store s"
  by (simp add: enqueueDeviceRequest_def)

lemma store_upd_device [simp]: "store (upd_device d f s) = (store s)(d := f (store s d))"
  by (simp add: upd_device_def)

lemma fields_upd_device [simp]:
  "m_devices (upd_device d f s) = m_devices s"
  "m_requests (upd_device d f s) = m_requests s"
  "m_requestId (upd_device d f s) = m_requestId s"
  "trace (upd_device d f s) = trace s"
  "allocated (upd_device d f s) = allocated s"
  by (simp_all add: upd_device_def)

lemma fields_emit [simp]:
  "m_devices (emit e s) = m_devices s"
  "m_requests (emit e s) = m_requests s"
  "m_requestId (emit e s) = m_requestId s"
  "trace (emit e s) = trace s @ [e]"
  "allocated (emit e s) = allocated s"
  by (simp_all add: emit_def)

lemma store_configureReporting [simp]: "store (configureReporting H d e r s) = store s"
  by (simp add: configureReporting_def Let_def)

lemma store_fold_configureReporting [simp]:
  "store (fold (configureReporting H d e) rs s) = store s"
  by (induction rs arbitrary: s) simp_all

lemma store_fold_endpoints:
  "store (fold (\<lambda>(k, e) s. fold (configureReporting H d e) (reportings e) s) es s) = store s"
  by (induction es arbitrary: s) (simp_all add: split_def)

lemma store_configureReportings [simp]: "store (configureReportings H d s) = store s"
  by (simp add: configureReportings_def store_fold_endpoints)

lemma ident_interviewError [simp]:
  "ident (store (interviewError d r s) x) = ident (store s x)"
  by (simp add: interviewError_def ident_def)

lemma ident_interviewDevice [simp]:
  "ident (store (interviewDevice d s) x) = ident (store s x)"
  by (simp add: interviewDevice_def ident_def)

lemma ident_setupDevice [simp]:
  "ident (store (setupDevice H d s) x) = ident (store s x)"
  by (simp add: setupDevice_def ident_def)

lemma ident_ZigBee_interviewFinished:
  "ident (store (ZigBee_interviewFinished H d s) x) =
     (if x = d then (manufacturerName (store s d), modelName (store s d), True)
      else ident (store s x))"
  using ident_setupDevice [of H d s d]
  by (simp add: ZigBee_interviewFinished_def Let_def ident_def setupDevice_def)

lemma flag_ZigBee_interviewFinished:
  "interviewFinished (store (ZigBee_interviewFinished H d s) x)
     = (x = d \<or> interviewFinished (store s x))"
  using ident_ZigBee_interviewFinished [of H d s x]
  by (auto simp add: ident_def split: if_splits)

lemma names_ZigBee_interviewFinished:
  "manufacturerName (store (ZigBee_interviewFinished H d s) x) = manufacturerName (store s x)"
  "modelName (store (ZigBee_interviewFinished H d s) x) = modelName (store s x)"
  using ident_ZigBee_interviewFinished [of H d s x]
  by (auto simp add: ident_def split: if_splits)

lemma ident_interviewZones:
  "interviewZones H A i d es s = Some (ok, s') \<Longrightarrow> ident (store s' x) = ident (store s x)"
  by (induction es) (auto split: if_splits ZoneStatus.splits)

lemma ident_upd_endpoint [simp]:
  "ident (store (upd_endpoint ep f s) x) = ident (store s x)"
  by (simp add: upd_endpoint_def ident_def)

lemma flag_basicInterview:
  "interviewFinished (store (basicInterview d a s) x) = interviewFinished (store s x)"
  by (simp add: basicInterview_def Let_def interviewDevice_def)

lemma ident_forwardToProperties:
  "forwardToProperties parse ep c s = Some s' \<Longrightarrow> ident (store s' x) = ident (store s x)"
  by (auto simp add: forwardToProperties_def split: Option.bind_splits prod.splits)

lemma QString_literal_Nil [simp]: "(QString_literal t = []) = (t = [])"
  by (simp add: QString_literal_def)

lemma startsWith_nonempty: "startsWith t (QString_literal ''lumi.sensor'') \<Longrightarrow> t \<noteq> []"
  by (auto simp add: startsWith_def QString_literal_def)

lemma propertiesOf_upd_device:
  "endpoints (f (store s d)) = endpoints (store s d)
   \<Longrightarrow> propertiesOf (upd_device d f s) x = propertiesOf s x"
  by (simp add: propertiesOf_def)



lemma propertiesOf_interviewDevice [simp]:
  "propertiesOf (interviewDevice d s) x = propertiesOf s x"
  by (simp add: propertiesOf_def interviewDevice_def)

lemma propertiesOf_basicInterview [simp]:
  "propertiesOf (basicInterview d a s) x = propertiesOf s x"
  by (simp add: basicInterview_def Let_def propertiesOf_upd_device)

lemma endpoints_ZigBee_interviewFinished:
  "endpoints (store (ZigBee_interviewFinished H d s) x) = endpoints (store (setupDevice H d s) x)"
  by (simp add: ZigBee_interviewFinished_def Let_def)

lemma parseAttribute_lumi:
  assumes "parseAttribute H A ep c a t data s = Some s'" and "lumiJoin H s (fst ep) c a t data"
  shows "s' = ZigBee_interviewFinished H (fst ep)
      (upd_device (fst ep) (\<lambda>d. d\<lparr>manufacturerName := QString_literal ''LUMI''\<rparr>)
         (upd_device (fst ep) (\<lambda>d. d\<lparr>powerSource := POWER_SOURCE_BATTERY H\<rparr>)
            (upd_device (fst ep)
               (\<lambda>d. d\<lparr>modelName := trimmed H (QString_of H data)\<rparr>) s)))"
  using assms by (auto simp add: parseAttribute_def lumiJoin_def Let_def split: if_splits)


lemma lumi_name:
  "trimmed zcl (QString_of zcl [0x6C, 0x75, 0x6D, 0x69, 0x2E, 0x73, 0x65, 0x6E, 0x73, 0x6F,
                                0x72, 0x5F, 0x68, 0x74])
   = QString_literal ''lumi.sensor_ht''"
  by code_simp

lemma lumi_prefix:
  "startsWith (QString_literal ''lumi.sensor_ht'') (QString_literal ''lumi.sensor'')"
  by code_simp

subsection \<open>Scheduler\<close>

lemma erase_pass_skips: "P x \<Longrightarrow> erase_pass P (x # y # xs) = y # erase_pass P xs"
  by simp

text \<open>
  C2. An entry that is Finished or Aborted must be gone after one tick. The removal
  loop of \<open>handleRequests\<close> breaks this: after erasing an entry it steps over the next
  one. Two pending data requests, ids 0 and 1, that the adapter refuses are both
  Aborted by the first loop; the tick removes entry 0 and leaves entry 1, Aborted, in
  the table.
\<close>

theorem handleRequests_leaves_aborted:
  "map_option m_requests
     (handleRequests H ((A :: Adapter)\<lparr>dataRequest := (\<lambda>i nwk e c d. False)\<rparr>)
        (s\<lparr>m_requests :=
             [(0x00, \<lparr>m_request = DataPayload q0, m_type = Data, m_status = Pending\<rparr>),
              (0x01, \<lparr>m_request = DataPayload q1, m_type = Data, m_status = Pending\<rparr>)]\<rparr>))
   = Some [(0x01, \<lparr>m_request = DataPayload q1, m_type = Data, m_status = Aborted\<rparr>)]"
  by (simp add: handleRequests_def sendRequests.simps nextKey_def sendRequest_def
      setStatus_def finished_or_aborted_def)

theorem handleRequests_leaves_aborted_witness:
  "map_option m_requests
     (handleRequests zcl ((adapter True)\<lparr>dataRequest := (\<lambda>i nwk e c d. False)\<rparr>)
        (example_state\<lparr>m_requests :=
           [(0x00, \<lparr>m_request = DataPayload
                       \<lparr>q_device = 0, q_endpointId = 0x01, q_clusterId = 0x0006,
                        q_data = [0x01, 0x00, 0x00], q_name = []\<rparr>,
                    m_type = Data, m_status = Pending\<rparr>),
            (0x01, \<lparr>m_request = DataPayload
                       \<lparr>q_device = 0, q_endpointId = 0x01, q_clusterId = 0x0006,
                        q_data = [0x01, 0x01, 0x01], q_name = []\<rparr>,
                    m_type = Data, m_status = Pending\<rparr>)]\<rparr>))
   = Some [(0x01, \<lparr>m_request = DataPayload
                      \<lparr>q_device = 0, q_endpointId = 0x01, q_clusterId = 0x0006,
                       q_data = [0x01, 0x01, 0x01], q_name = []\<rparr>,
                    m_type = Data, m_status = Aborted\<rparr>)]"
  by (rule handleRequests_leaves_aborted)


subsection \<open>Interview flag and names\<close>

lemma interviewRequest_flag:
  assumes "interviewRequest H A i d s = (ok, s')"
    and "\<not> interviewFinished (store s x)" and "interviewFinished (store s' x)"
  shows "manufacturerName (store s' x) \<noteq> [] \<and> modelName (store s' x) \<noteq> []"
proof (cases "manufacturerName (store s d) = [] \<or> modelName (store s d) = []")
  case True
  with assms(1) have "ident (store s' x) = ident (store s x)"
    by (auto simp add: interviewRequest_def Let_def ident_def interviewError_def
        split: if_splits option.splits prod.splits)
  with assms(2,3) show ?thesis by (simp add: ident_def)
next
  case False
  show ?thesis
  proof (cases "interviewZones H A i d (endpoints (store s d)) s")
    case None
    with False assms(1) have "s' = ZigBee_interviewFinished H d s"
      by (simp add: interviewRequest_def Let_def)
    with ident_ZigBee_interviewFinished [of H d s x] assms(2,3) False show ?thesis
      by (auto simp add: ident_def split: if_splits)
  next
    case (Some r)
    with False assms(1) have "interviewZones H A i d (endpoints (store s d)) s = Some (ok, s')"
      by (simp add: interviewRequest_def Let_def)
    from ident_interviewZones [OF this, of x] assms(2,3) show ?thesis
      by (simp add: ident_def)
  qed
qed

lemma parseAttribute_flag:
  assumes "parseAttribute H A ep c a t data s = Some s'"
    and "\<not> interviewFinished (store s x)" and "interviewFinished (store s' x)"
  shows "manufacturerName (store s' x) \<noteq> [] \<and> modelName (store s' x) \<noteq> []"
proof (cases "lumiJoin H s (fst ep) c a t data")
  case True
  note s' = parseAttribute_lumi [OF assms(1) True]
  from assms(2,3) have x: "x = fst ep"
    unfolding s' by (simp add: flag_ZigBee_interviewFinished split: if_splits)
  from True have "trimmed H (QString_of H data) \<noteq> []"
    by (simp add: lumiJoin_def startsWith_nonempty)
  then show ?thesis
    unfolding s' x by (simp add: names_ZigBee_interviewFinished)
next
  case False
  with assms(1) have "interviewFinished (store s' x) = interviewFinished (store s x)"
    using ident_forwardToProperties [of _ ep c s s' x]
    by (auto simp add: parseAttribute_def lumiJoin_def Let_def flag_basicInterview ident_def
        upd_endpoint_def interviewDevice_def
        split: if_splits Option.bind_splits)
  with assms(2,3) show ?thesis by simp
qed

lemma coordinatorReady_entry:
  "interviewFinished (store (coordinatorReady A s) (allocated s))
   \<and> logicalType (store (coordinatorReady A s) (allocated s)) = Coordinator
   \<and> manufacturerName (store (coordinatorReady A s) (allocated s)) = []
   \<and> modelName (store (coordinatorReady A s) (allocated s)) = []
   \<and> qmap_value (m_devices (coordinatorReady A s)) (rev (adapterAddress A)) = Some (allocated s)"
  by (simp add: coordinatorReady_def Let_def DeviceObject_new_def qmap_value_insert)

text \<open>
  C3, as stated, fails: the coordinator entry that \<open>coordinatorReady\<close> puts into the
  catalogue has the flag set and no manufacturer or model name.
\<close>

theorem coordinator_entry_counterexample:
  "qmap_value (m_devices (coordinatorReady (adapter True) ZigBee_new))
     [0x01, 0x02, 0x03, 0x04, 0x05, 0x06, 0x07, 0x08] = Some 0
   \<and> interviewFinished (store (coordinatorReady (adapter True) ZigBee_new) 0)
   \<and> manufacturerName (store (coordinatorReady (adapter True) ZigBee_new) 0) = []
   \<and> modelName (store (coordinatorReady (adapter True) ZigBee_new) 0) = []"
  by (simp add: coordinatorReady_def Let_def adapter_def ZigBee_new_def DeviceObject_new_def
      upd_device_def emit_def)

text \<open>
  C3, amended. Whenever the interview FSM (\<open>interviewRequest\<close>) or the LUMI join quirk
  (\<open>parseAttribute\<close>) sets the \<open>interviewFinished\<close> flag of a device, that device's
  manufacturer name and model name are both non-empty at that point. The coordinator
  entry created on adapter start carries the flag with both names empty.
\<close>

theorem interview_sets_flag_with_names:
  "(interviewRequest H A i d s = (ok, s1)
      \<and> \<not> interviewFinished (store s x) \<and> interviewFinished (store s1 x)
      \<longrightarrow> manufacturerName (store s1 x) \<noteq> [] \<and> modelName (store s1 x) \<noteq> [])
   \<and> (parseAttribute H A ep c a t data s = Some s2
      \<and> \<not> interviewFinished (store s x) \<and> interviewFinished (store s2 x)
      \<longrightarrow> manufacturerName (store s2 x) \<noteq> [] \<and> modelName (store s2 x) \<noteq> [])
   \<and> interviewFinished (store (coordinatorReady A s) (allocated s))
   \<and> logicalType (store (coordinatorReady A s) (allocated s)) = Coordinator
   \<and> manufacturerName (store (coordinatorReady A s) (allocated s)) = []
   \<and> modelName (store (coordinatorReady A s) (allocated s)) = []"
  using interviewRequest_flag [of H A i d s ok s1 x]
    parseAttribute_flag [of H A ep c a t data s s2 x]
    coordinatorReady_entry [of A s]
  by blast

theorem interview_sets_flag_with_names_witness:
  "\<not> interviewFinished (store example_state 0)
   \<and> interviewFinished
       (store (snd (interviewRequest zcl (adapter True) 0x05 0
          (upd_device 0 (\<lambda>d. d\<lparr>manufacturerName := QString_literal ''IKEA'',
                          modelName := QString_literal ''bulb''\<rparr>)
             example_state))) 0)
   \<and> manufacturerName
       (store (snd (interviewRequest zcl (adapter True) 0x05 0
          (upd_device 0 (\<lambda>d. d\<lparr>manufacturerName := QString_literal ''IKEA'',
                          modelName := QString_literal ''bulb''\<rparr>)
             example_state))) 0) \<noteq> []
   \<and> interviewFinished
       (store (ZigBee_interviewFinished zcl 0
          (upd_device 0 (\<lambda>d. d\<lparr>manufacturerName := QString_literal ''LUMI''\<rparr>)
             (upd_device 0 (\<lambda>d. d\<lparr>powerSource := POWER_SOURCE_BATTERY zcl\<rparr>)
                (upd_device 0 (\<lambda>d. d\<lparr>modelName := QString_literal ''lumi.sensor_ht''\<rparr>)
                   example_state)))) 0)
   \<and> modelName
       (store (ZigBee_interviewFinished zcl 0
          (upd_device 0 (\<lambda>d. d\<lparr>manufacturerName := QString_literal ''LUMI''\<rparr>)
             (upd_device 0 (\<lambda>d. d\<lparr>powerSource := POWER_SOURCE_BATTERY zcl\<rparr>)
                (upd_device 0 (\<lambda>d. d\<lparr>modelName := QString_literal ''lumi.sensor_ht''\<rparr>)
                   example_state)))) 0)
       \<noteq> []"
proof -
  let ?s = "upd_device 0 (\<lambda>d. d\<lparr>manufacturerName := QString_literal ''IKEA'',
                          modelName := QString_literal ''bulb''\<rparr>)
              example_state"
  let ?s1 = "snd (interviewRequest zcl (adapter True) 0x05 0 ?s)"
  let ?data = "[0x6C, 0x75, 0x6D, 0x69, 0x2E, 0x73, 0x65, 0x6E, 0x73, 0x6F, 0x72,
                0x5F, 0x68, 0x74] :: QByteArray"
  let ?s2 = "ZigBee_interviewFinished zcl 0
          (upd_device 0 (\<lambda>d. d\<lparr>manufacturerName := QString_literal ''LUMI''\<rparr>)
             (upd_device 0 (\<lambda>d. d\<lparr>powerSource := POWER_SOURCE_BATTERY zcl\<rparr>)
                (upd_device 0 (\<lambda>d. d\<lparr>modelName := QString_literal ''lumi.sensor_ht''\<rparr>)
                   example_state)))"
  have before: "\<not> interviewFinished (store example_state 0)"
    by (simp add: example_defs)
  have before': "\<not> interviewFinished (store ?s 0)"
    by (simp add: example_defs)
  have run: "interviewRequest zcl (adapter True) 0x05 0 ?s
             = (fst (interviewRequest zcl (adapter True) 0x05 0 ?s), ?s1)"
    by simp
  have after1: "interviewFinished (store ?s1 0)"
    by (simp add: interviewRequest_def Let_def upd_device_def example_defs
        ZigBee_interviewFinished_def setupDevice_def configureReportings_def emit_def zcl_def
        CLUSTER_IAS_ZONE_def)
  have lumi: "lumiJoin zcl example_state 0 0x0000 0x0005 0x42 ?data"
    by (simp add: lumiJoin_def lumi_name lumi_prefix example_defs CLUSTER_BASIC_def
        DATA_TYPE_CHARACTER_STRING_def)
  have ep: "endpointOf example_state (0, 0x01) \<noteq> None"
    by (simp add: endpointOf_def example_defs)
  have parse: "parseAttribute zcl (adapter True) (0, 0x01) 0x0000 0x0005 0x42 ?data example_state
               = Some ?s2"
    using lumi ep
    by (simp add: parseAttribute_def lumiJoin_def Let_def lumi_name lumi_prefix
        CLUSTER_BASIC_def DATA_TYPE_CHARACTER_STRING_def)
  have after2: "interviewFinished (store ?s2 0)"
    by (simp add: flag_ZigBee_interviewFinished)
  from interview_sets_flag_with_names
    [of zcl "adapter True" "0x05" 0 ?s "fst (interviewRequest zcl (adapter True) 0x05 0 ?s)"
        ?s1 0]
    before' run after1
  have n1: "manufacturerName (store ?s1 0) \<noteq> []"
    by blast
  from interview_sets_flag_with_names
    [where H = zcl and A = "adapter True" and ep = "(0, 0x01)" and c = "0x0000"
       and a = "0x0005" and t = "0x42" and data = ?data and s = example_state and ?s2.0 = ?s2
       and x = 0]
    before parse after2
  have n2: "modelName (store ?s2 0) \<noteq> []"
    by blast
  from before after1 n1 after2 n2 show ?thesis
    by blast
qed


text \<open>
  The names are not protected once the flag is set: a later Basic-cluster report of the
  manufacturer name that carries an empty string clears the name of an interviewed
  device.
\<close>

lemma empty_name:
  "trimmed zcl (QString_of zcl []) = []"
  by code_simp

lemma basic_report_overwrites_name:
  "map_option (\<lambda>s. ident (store s 0))
     (parseAttribute zcl (adapter True) (0, 0x01) 0x0000 0x0004 0x42 [] interviewed_state)
   = Some ([], QString_literal ''bulb'', True)"
  by (simp add: parseAttribute_def endpointOf_def interviewed_defs upd_device_def
      CLUSTER_BASIC_def DATA_TYPE_CHARACTER_STRING_def empty_name basicInterview_def ident_def)


subsection \<open>Frames from a device that is not yet interviewed\<close>














subsection \<open>The request table\<close>

lemma trace_enqueue: "trace (enqueue r s) = trace s @ [Enqueued (m_requestId s) r]"
  by (simp add: enqueue_def Let_def)

lemma m_requests_enqueue:
  "m_requests (enqueue r s) = qmap_insert (m_requestId s) r (m_requests s)"
  by (simp add: enqueue_def Let_def emit_def)

lemma m_requestTimer_enqueue: "m_requestTimer (enqueue r s)"
  by (simp add: enqueue_def Let_def emit_def)

lemma m_requestId_enqueue: "m_requestId (enqueue r s) = m_requestId s + 1"
  by (simp add: enqueue_def Let_def emit_def)

lemma enqueueDataRequest_table:
  "m_requests (enqueueDataRequest d e c data n s)
   = qmap_insert (m_requestId s)
       \<lparr>m_request = DataPayload
          \<lparr>q_device = d, q_endpointId = e, q_clusterId = c, q_data = data, q_name = n\<rparr>,
        m_type = Data, m_status = Pending\<rparr> (m_requests s)"
  "m_requestTimer (enqueueDataRequest d e c data n s)"
  "m_requestId (enqueueDataRequest d e c data n s) = m_requestId s + 1"
  "trace (enqueueDataRequest d e c data n s)
   = trace s @ [Enqueued (m_requestId s)
       \<lparr>m_request = DataPayload
          \<lparr>q_device = d, q_endpointId = e, q_clusterId = c, q_data = data, q_name = n\<rparr>,
        m_type = Data, m_status = Pending\<rparr>]"
  by (simp_all add: enqueueDataRequest_def m_requests_enqueue m_requestTimer_enqueue
      m_requestId_enqueue trace_enqueue)

subsection \<open>OTA image request\<close>

lemma otaFrameControl_value: "otaFrameControl = 0x19"
  by (simp add: otaFrameControl_def FC_CLUSTER_SPECIFIC_def FC_SERVER_TO_CLIENT_def
      FC_DISABLE_DEFAULT_RESPONSE_def)

lemma zclHeader_ota: "zclHeader otaFrameControl tid cmd 0 = [0x19, tid, cmd]"
  by (simp add: zclHeader_def otaFrameControl_value FC_MANUFACTURER_SPECIFIC_def)

lemma clusterCommandReceived_ota:
  assumes "endpointOf s ep = Some e" and "interviewFinished (store s (fst ep))"
  shows "clusterCommandReceived H fs ep CLUSTER_OTA_UPGRADE tid cmd payload s
         = otaUpgrade H fs ep tid cmd payload s"
  using assms
  by (simp add: clusterCommandReceived_def CLUSTER_OTA_UPGRADE_def CLUSTER_GROUPS_def)

lemma otaUpgrade_reply:
  assumes "endpointOf s ep = Some e"
  shows "fs (m_otaUpgradeFile s) = None \<Longrightarrow>
            otaUpgrade H fs ep tid 0x01 payload s =
              Some (enqueueDataRequest (fst ep) (e_id e) CLUSTER_OTA_UPGRADE
                      [0x19, tid, 0x02, STATUS_NO_IMAGE_AVAILABLE H] [] s)"
    and "fs (m_otaUpgradeFile s) = Some bytes \<Longrightarrow> otaFileHeader H bytes = Some hdr
            \<Longrightarrow> otaNextImageRequest H payload = Some rq \<Longrightarrow>
            otaUpgrade H fs ep tid 0x01 payload s =
              Some (enqueueDataRequest (fst ep) (e_id e) CLUSTER_OTA_UPGRADE
                      ([0x19, tid, 0x02]
                       @ (if nq_manufacturerCode rq \<noteq> h_manufacturerCode hdr
                             \<or> nq_imageType rq \<noteq> h_imageType hdr
                             \<or> nq_fileVersion rq = h_fileVersion hdr
                          then [STATUS_NO_IMAGE_AVAILABLE H]
                          else otaNextImageResponse H
                                 \<lparr>nr_status = 0x00,
                                  nr_manufacturerCode = h_manufacturerCode hdr,
                                  nr_imageType = h_imageType hdr,
                                  nr_fileVersion = h_fileVersion hdr,
                                  nr_imageSize = h_imageSize hdr\<rparr>)) [] s)"
  using assms
  by (simp_all add: otaUpgrade_def zclHeader_ota Let_def)

text \<open>
  C7, as stated, fails: an ImageRequest from a device whose interview has not finished
  gets no reply. \<open>clusterCommandReceived\<close> returns before the OTA branch, whether or
  not the image file can be opened, and the request table stays empty.
\<close>

theorem ImageRequest_unfinished_counterexample:
  "\<not> interviewFinished (store example_state 0)
   \<and> clusterCommandReceived zcl (\<lambda>n. if n = ''fw.ota'' then Some example_image else None)
       (0, 0x01) 0x0019 0x2A 0x01 [0x00, 0x5F, 0x11, 0x01, 0x00, 0x01, 0x00, 0x01, 0x00]
       (example_state\<lparr>m_otaUpgradeFile := ''fw.ota''\<rparr>)
     = Some (example_state\<lparr>m_otaUpgradeFile := ''fw.ota''\<rparr>)
   \<and> m_requests (example_state\<lparr>m_otaUpgradeFile := ''fw.ota''\<rparr>) = []
   \<and> clusterCommandReceived zcl (\<lambda>n. None) (0, 0x01) 0x0019 0x2A 0x01 [] example_state
     = Some example_state
   \<and> m_requests example_state = []"
  by (simp add: clusterCommandReceived_def endpointOf_def example_defs)

text \<open>
  C7, amended. On an OTA ImageRequest (cluster 0x0019, command 0x01) from a device whose
  interview has finished, the responder puts a reply with command 0x02 into the request
  table: with \<open>STATUS_NO_IMAGE_AVAILABLE\<close> when the configured file cannot be opened,
  when the request's manufacturer code or image type differs from the file header's, or
  when the request's file version equals the header's; otherwise with status 0 and the
  header's manufacturer code, image type, file version and image size. In each case
  the call has a result: nothing is raised. From a device whose interview has not
  finished the request gets no reply.
\<close>

theorem ImageRequest_reply:
  assumes "endpointOf s ep = Some e"
  shows "(interviewFinished (store s (fst ep)) \<and> fs (m_otaUpgradeFile s) = None \<longrightarrow>
            clusterCommandReceived H fs ep CLUSTER_OTA_UPGRADE tid 0x01 payload s =
              Some (enqueueDataRequest (fst ep) (e_id e) CLUSTER_OTA_UPGRADE
                      [0x19, tid, 0x02, STATUS_NO_IMAGE_AVAILABLE H] [] s)
          \<and> map_option m_requests
                (clusterCommandReceived H fs ep CLUSTER_OTA_UPGRADE tid 0x01 payload s) =
              Some (qmap_insert (m_requestId s)
                      \<lparr>m_request = DataPayload
                         \<lparr>q_device = fst ep, q_endpointId = e_id e,
                          q_clusterId = CLUSTER_OTA_UPGRADE,
                          q_data = [0x19, tid, 0x02, STATUS_NO_IMAGE_AVAILABLE H],
                          q_name = []\<rparr>,
                       m_type = Data, m_status = Pending\<rparr> (m_requests s)))
       \<and> (interviewFinished (store s (fst ep)) \<and> fs (m_otaUpgradeFile s) = Some bytes
            \<and> otaFileHeader H bytes = Some hdr \<and> otaNextImageRequest H payload = Some rq \<longrightarrow>
            clusterCommandReceived H fs ep CLUSTER_OTA_UPGRADE tid 0x01 payload s =
              Some (enqueueDataRequest (fst ep) (e_id e) CLUSTER_OTA_UPGRADE
                      ([0x19, tid, 0x02]
                       @ (if nq_manufacturerCode rq \<noteq> h_manufacturerCode hdr
                             \<or> nq_imageType rq \<noteq> h_imageType hdr
                             \<or> nq_fileVersion rq = h_fileVersion hdr
                          then [STATUS_NO_IMAGE_AVAILABLE H]
                          else otaNextImageResponse H
                                 \<lparr>nr_status = 0x00,
                                  nr_manufacturerCode = h_manufacturerCode hdr,
                                  nr_imageType = h_imageType hdr,
                                  nr_fileVersion = h_fileVersion hdr,
                                  nr_imageSize = h_imageSize hdr\<rparr>)) [] s)
          \<and> map_option m_requests
                (clusterCommandReceived H fs ep CLUSTER_OTA_UPGRADE tid 0x01 payload s) =
              Some (qmap_insert (m_requestId s)
                      \<lparr>m_request = DataPayload
                         \<lparr>q_device = fst ep, q_endpointId = e_id e,
                          q_clusterId = CLUSTER_OTA_UPGRADE,
                          q_data =
                            [0x19, tid, 0x02]
                            @ (if nq_manufacturerCode rq \<noteq> h_manufacturerCode hdr
                                  \<or> nq_imageType rq \<noteq> h_imageType hdr
                                  \<or> nq_fileVersion rq = h_fileVersion hdr
                               then [STATUS_NO_IMAGE_AVAILABLE H]
                               else otaNextImageResponse H
                                      \<lparr>nr_status = 0x00,
                                       nr_manufacturerCode = h_manufacturerCode hdr,
                                       nr_imageType = h_imageType hdr,
                                       nr_fileVersion = h_fileVersion hdr,
                                       nr_imageSize = h_imageSize hdr\<rparr>),
                          q_name = []\<rparr>,
                       m_type = Data, m_status = Pending\<rparr> (m_requests s)))
       \<and> (\<not> interviewFinished (store s (fst ep)) \<longrightarrow>
            clusterCommandReceived H fs ep CLUSTER_OTA_UPGRADE tid 0x01 payload s = Some s)"
proof (intro conjI impI)
  assume a: "interviewFinished (store s (fst ep)) \<and> fs (m_otaUpgradeFile s) = None"
  with clusterCommandReceived_ota [OF assms, of H fs tid "0x01" payload]
    otaUpgrade_reply(1) [OF assms, of fs H tid payload]
  show r: "clusterCommandReceived H fs ep CLUSTER_OTA_UPGRADE tid 0x01 payload s =
              Some (enqueueDataRequest (fst ep) (e_id e) CLUSTER_OTA_UPGRADE
                      [0x19, tid, 0x02, STATUS_NO_IMAGE_AVAILABLE H] [] s)"
    by simp
  show "map_option m_requests
                (clusterCommandReceived H fs ep CLUSTER_OTA_UPGRADE tid 0x01 payload s) =
              Some (qmap_insert (m_requestId s)
                      \<lparr>m_request = DataPayload
                         \<lparr>q_device = fst ep, q_endpointId = e_id e,
                          q_clusterId = CLUSTER_OTA_UPGRADE,
                          q_data = [0x19, tid, 0x02, STATUS_NO_IMAGE_AVAILABLE H],
                          q_name = []\<rparr>,
                       m_type = Data, m_status = Pending\<rparr> (m_requests s))"
    by (simp add: r enqueueDataRequest_table)
next
  assume a: "interviewFinished (store s (fst ep)) \<and> fs (m_otaUpgradeFile s) = Some bytes
            \<and> otaFileHeader H bytes = Some hdr \<and> otaNextImageRequest H payload = Some rq"
  with clusterCommandReceived_ota [OF assms, of H fs tid "0x01" payload]
    otaUpgrade_reply(2) [OF assms, of fs bytes H hdr payload rq tid]
  show r: "clusterCommandReceived H fs ep CLUSTER_OTA_UPGRADE tid 0x01 payload s =
              Some (enqueueDataRequest (fst ep) (e_id e) CLUSTER_OTA_UPGRADE
                      ([0x19, tid, 0x02]
                       @ (if nq_manufacturerCode rq \<noteq> h_manufacturerCode hdr
                             \<or> nq_imageType rq \<noteq> h_imageType hdr
                             \<or> nq_fileVersion rq = h_fileVersion hdr
                          then [STATUS_NO_IMAGE_AVAILABLE H]
                          else otaNextImageResponse H
                                 \<lparr>nr_status = 0x00,
                                  nr_manufacturerCode = h_manufacturerCode hdr,
                                  nr_imageType = h_imageType hdr,
                                  nr_fileVersion = h_fileVersion hdr,
                                  nr_imageSize = h_imageSize hdr\<rparr>)) [] s)"
    by simp
  show "map_option m_requests
                (clusterCommandReceived H fs ep CLUSTER_OTA_UPGRADE tid 0x01 payload s) =
              Some (qmap_insert (m_requestId s)
                      \<lparr>m_request = DataPayload
                         \<lparr>q_device = fst ep, q_endpointId = e_id e,
                          q_clusterId = CLUSTER_OTA_UPGRADE,
                          q_data =
                            [0x19, tid, 0x02]
                            @ (if nq_manufacturerCode rq \<noteq> h_manufacturerCode hdr
                                  \<or> nq_imageType rq \<noteq> h_imageType hdr
                                  \<or> nq_fileVersion rq = h_fileVersion hdr
                               then [STATUS_NO_IMAGE_AVAILABLE H]
                               else otaNextImageResponse H
                                      \<lparr>nr_status = 0x00,
                                       nr_manufacturerCode = h_manufacturerCode hdr,
                                       nr_imageType = h_imageType hdr,
                                       nr_fileVersion = h_fileVersion hdr,
                                       nr_imageSize = h_imageSize hdr\<rparr>),
                          q_name = []\<rparr>,
                       m_type = Data, m_status = Pending\<rparr> (m_requests s))"
    unfolding r by (simp only: option.map enqueueDataRequest_table)
next
  assume "\<not> interviewFinished (store s (fst ep))"
  with assms show "clusterCommandReceived H fs ep CLUSTER_OTA_UPGRADE tid 0x01 payload s = Some s"
    by (simp add: clusterCommandReceived_def)
qed

lemma example_image_header:
  "otaFileHeader zcl example_image
   = Some \<lparr>h_manufacturerCode = 0x115F, h_imageType = 0x0001, h_fileVersion = 0x00010002,
           h_imageSize = 0x00000400\<rparr>"
  by (simp add: zcl_def example_image_def u16At_def u32At_def at'_def nth_append
      fromLittleEndian16_def fromBigEndian32_def)

lemma example_image_request:
  "otaNextImageRequest zcl [0x00, 0x5F, 0x11, 0x01, 0x00, 0x01, 0x00, 0x01, 0x00]
   = Some \<lparr>nq_manufacturerCode = 0x115F, nq_imageType = 0x0001, nq_fileVersion = 0x00010001\<rparr>"
  by (simp add: zcl_def u16At_def u32At_def at'_def fromLittleEndian16_def
      fromBigEndian32_def)

lemma example_image_response:
  "otaNextImageResponse zcl
     \<lparr>nr_status = 0x00, nr_manufacturerCode = 0x115F, nr_imageType = 0x0001,
      nr_fileVersion = 0x00010002, nr_imageSize = 0x00000400\<rparr>
   = [0x00, 0x5F, 0x11, 0x01, 0x00, 0x02, 0x00, 0x01, 0x00, 0x00, 0x04, 0x00, 0x00]"
  by (simp add: zcl_def toLittleEndian16_def toLittleEndian32_def)

theorem ImageRequest_reply_witness:
  "map_option m_requests
     (clusterCommandReceived zcl (\<lambda>n. None) (0, 0x01) 0x0019 0x2A 0x01 [] interviewed_state)
   = Some [(0x00,
            \<lparr>m_request = DataPayload
               \<lparr>q_device = 0, q_endpointId = 0x01, q_clusterId = 0x0019,
                q_data = [0x19, 0x2A, 0x02, 0x98], q_name = []\<rparr>,
             m_type = Data, m_status = Pending\<rparr>)]
   \<and> map_option m_requests
       (clusterCommandReceived zcl (\<lambda>n. if n = ''fw.ota'' then Some example_image else None)
          (0, 0x01) 0x0019 0x2A 0x01 [0x00, 0x5F, 0x11, 0x01, 0x00, 0x01, 0x00, 0x01, 0x00]
          (interviewed_state\<lparr>m_otaUpgradeFile := ''fw.ota''\<rparr>))
     = Some [(0x00,
              \<lparr>m_request = DataPayload
                 \<lparr>q_device = 0, q_endpointId = 0x01, q_clusterId = 0x0019,
                  q_data = [0x19, 0x2A, 0x02, 0x00, 0x5F, 0x11, 0x01, 0x00, 0x02, 0x00, 0x01,
                            0x00, 0x00, 0x04, 0x00, 0x00],
                  q_name = []\<rparr>,
               m_type = Data, m_status = Pending\<rparr>)]
   \<and> clusterCommandReceived zcl (\<lambda>n. None) (0, 0x01) 0x0019 0x2A 0x01 [] example_state
     = Some example_state"
proof -
  let ?e = "(EndpointObject_new 0x01)
              \<lparr>properties := [\<lparr>kind = Status, m_name = ''status'', m_clusterId = 0x0006,
                                m_value = Invalid\<rparr>]\<rparr>"
  let ?s = "interviewed_state\<lparr>m_otaUpgradeFile := ''fw.ota''\<rparr>"
  let ?fs = "\<lambda>n. if n = ''fw.ota'' then Some example_image else None"
  have ep: "endpointOf interviewed_state (0, 0x01) = Some ?e"
    by (simp add: endpointOf_def interviewed_defs upd_device_def)
  have ep': "endpointOf ?s (0, 0x01) = Some ?e"
    by (simp add: endpointOf_def interviewed_defs upd_device_def)
  have ep0: "endpointOf example_state (0, 0x01) = Some ?e"
    by (simp add: endpointOf_def example_defs)
  have id: "e_id ?e = 0x01"
    by (simp add: EndpointObject_new_def)
  have fin: "interviewFinished (store interviewed_state (fst (0 :: nat, 0x01 :: 8 word)))"
    "interviewFinished (store ?s (fst (0 :: nat, 0x01 :: 8 word)))"
    "\<not> interviewFinished (store example_state (fst (0 :: nat, 0x01 :: 8 word)))"
    by (simp_all add: interviewed_defs upd_device_def)
  have tables: "m_requests interviewed_state = []" "m_requestId interviewed_state = 0"
    "m_requests ?s = []" "m_requestId ?s = 0"
    by (simp_all add: interviewed_defs upd_device_def)
  have nofile: "(\<lambda>n. None :: QByteArray option) (m_otaUpgradeFile interviewed_state) = None"
    by simp
  have isfile: "?fs (m_otaUpgradeFile ?s) = Some example_image"
    by simp
  from ImageRequest_reply [OF ep, where fs = "\<lambda>n. None" and H = zcl and tid = "0x2A"
      and payload = "[]"] fin(1) nofile
  have r1: "map_option m_requests
     (clusterCommandReceived zcl (\<lambda>n. None) (0, 0x01) 0x0019 0x2A 0x01 [] interviewed_state)
   = Some [(0x00,
            \<lparr>m_request = DataPayload
               \<lparr>q_device = 0, q_endpointId = 0x01, q_clusterId = 0x0019,
                q_data = [0x19, 0x2A, 0x02, 0x98], q_name = []\<rparr>,
             m_type = Data, m_status = Pending\<rparr>)]"
    by (simp add: CLUSTER_OTA_UPGRADE_def zcl_fields id tables enqueueDataRequest_table)
  from ImageRequest_reply [OF ep', where fs = ?fs and H = zcl and tid = "0x2A"
      and payload = "[0x00, 0x5F, 0x11, 0x01, 0x00, 0x01, 0x00, 0x01, 0x00]"
      and bytes = example_image
      and hdr = "\<lparr>h_manufacturerCode = 0x115F, h_imageType = 0x0001,
                  h_fileVersion = 0x00010002, h_imageSize = 0x00000400\<rparr>"
      and rq = "\<lparr>nq_manufacturerCode = 0x115F, nq_imageType = 0x0001,
                 nq_fileVersion = 0x00010001\<rparr>"]
    fin(2) isfile example_image_header example_image_request
  have r2: "map_option m_requests
       (clusterCommandReceived zcl ?fs
          (0, 0x01) 0x0019 0x2A 0x01 [0x00, 0x5F, 0x11, 0x01, 0x00, 0x01, 0x00, 0x01, 0x00] ?s)
     = Some [(0x00,
              \<lparr>m_request = DataPayload
                 \<lparr>q_device = 0, q_endpointId = 0x01, q_clusterId = 0x0019,
                  q_data = [0x19, 0x2A, 0x02, 0x00, 0x5F, 0x11, 0x01, 0x00, 0x02, 0x00, 0x01,
                            0x00, 0x00, 0x04, 0x00, 0x00],
                  q_name = []\<rparr>,
               m_type = Data, m_status = Pending\<rparr>)]"
    by (simp add: CLUSTER_OTA_UPGRADE_def example_image_response id tables
        enqueueDataRequest_table)
  from ImageRequest_reply [OF ep0, where fs = "\<lambda>n. None" and H = zcl and tid = "0x2A"
      and payload = "[]"] fin(3)
  have r3: "clusterCommandReceived zcl (\<lambda>n. None) (0, 0x01) 0x0019 0x2A 0x01 [] example_state
     = Some example_state"
    by (simp add: CLUSTER_OTA_UPGRADE_def)
  from r1 r2 r3 show ?thesis
    by simp
qed

subsection \<open>Reading the Time cluster\<close>

lemma fromLittleEndian16_toLittleEndian16:
  "fromLittleEndian16 (ucast a) (ucast (drop_bit 8 a)) = (a :: 16 word)"
  unfolding fromLittleEndian16_def
  by (rule bit_word_eqI) (auto simp add: bit_simps)

lemma readAttributes_step:
  assumes "unat i = length pre"
  shows "readAttributes H now c (pre @ toLittleEndian16 a @ rest) i request
         = readAttributes H now c (pre @ toLittleEndian16 a @ rest) (i + 2)
             (request @ attributeRecord H now c a)"
proof -
  have c0: "constData (pre @ toLittleEndian16 a @ rest) (unat i) = Some (ucast a)"
    using assms by (simp add: constData_def toLittleEndian16_def nth_append)
  have c1: "constData (pre @ toLittleEndian16 a @ rest) (unat i + 1)
            = Some (ucast (drop_bit 8 a))"
    using assms by (simp add: constData_def toLittleEndian16_def nth_append)
  have m: "mid (pre @ toLittleEndian16 a @ rest) (unat i) 2 = toLittleEndian16 a"
    using assms by (simp add: mid_def toLittleEndian16_def)
  have lt: "unat i < length (pre @ toLittleEndian16 a @ rest)"
    using assms by (simp add: toLittleEndian16_def)
  show ?thesis
    apply (subst readAttributes.simps)
    apply (simp only: lt c0 c1 m if_True Option.bind.simps Let_def
        fromLittleEndian16_toLittleEndian16)
    apply (simp add: attributeRecord_def STATUS_SUCCESS_def DATA_TYPE_UTC_TIME_def
        DATA_TYPE_32BIT_SIGNED_def DATA_TYPE_32BIT_UNSIGNED_def)
    done
qed

text \<open>
  The byte loop with its 8-bit index computes one record per attribute id, as long as
  the index does not wrap: at most 127 ids.
\<close>

lemma readAttributes_records:
  assumes "unat i = length pre" and "length pre + 2 * length attrs \<le> 254"
  shows "readAttributes H now c (pre @ concat (map toLittleEndian16 attrs)) i request
         = Some (request @ concat (map (attributeRecord H now c) attrs))"
  using assms
proof (induction attrs arbitrary: pre i request)
  case Nil
  then show ?case
    by (subst readAttributes.simps) simp
next
  case (Cons a attrs)
  have len: "length (toLittleEndian16 a) = 2"
    by (simp add: toLittleEndian16_def)
  have "unat (i + 2) = unat i + 2"
    using Cons.prems by (simp add: unat_word_ariths)
  with Cons.prems len have i': "unat (i + 2) = length (pre @ toLittleEndian16 a)"
    by simp
  from Cons.prems len have bound: "length (pre @ toLittleEndian16 a) + 2 * length attrs \<le> 254"
    by simp
  from Cons.IH [OF i' bound, of "request @ attributeRecord H now c a"]
    readAttributes_step [OF Cons.prems(1), of H now c a "concat (map toLittleEndian16 attrs)"
      request]
  show ?case
    by simp
qed

text \<open>
  C6. For every incoming global \<open>CMD_READ_ATTRIBUTES\<close> the engine enqueues a
  \<open>CMD_READ_ATTRIBUTES_RESPONSE\<close>: the request table receives, under the next request
  id, a pending data request to the asking endpoint and cluster whose frame has the
  same transaction id and the frame-control bits \<open>SERVER_TO_CLIENT\<close> and
  \<open>DISABLE_DEFAULT_RESPONSE\<close> and holds one record per attribute id asked for, and the
  request timer runs. On the Time cluster 0x000A the record for attribute 0x0000 is
  status 0, data type 0xE2 and the Unix time minus 946684800 as a 32-bit little-endian
  value; every attribute other than 0x0000, 0x0002 and 0x0007 gets a record with
  \<open>STATUS_UNSUPPORTED_ATTRIBUTE\<close>. The request names at most 127 attributes (its
  payload fits a ZigBee frame).
\<close>

theorem readAttributes_time_response:
  assumes "CMD_READ_ATTRIBUTES H \<noteq> CMD_CONFIGURE_REPORTING_RESPONSE H"
    and "CMD_READ_ATTRIBUTES H \<noteq> CMD_DEFAULT_RESPONSE H"
    and "endpointOf s ep = Some e"
    and "length attributes \<le> 127"
  shows "globalCommandReceived H A now ep clusterId tid (CMD_READ_ATTRIBUTES H)
           (concat (map toLittleEndian16 attributes)) s
         = Some (enqueueDataRequest (fst ep) (e_id e) clusterId
                   ([FC_SERVER_TO_CLIENT OR FC_DISABLE_DEFAULT_RESPONSE, tid,
                     CMD_READ_ATTRIBUTES_RESPONSE H]
                    @ concat (map (attributeRecord H now clusterId) attributes)) [] s)
       \<and> map_option (\<lambda>s'. (m_requests s', m_requestTimer s', store s'))
           (globalCommandReceived H A now ep clusterId tid (CMD_READ_ATTRIBUTES H)
              (concat (map toLittleEndian16 attributes)) s)
         = Some (qmap_insert (m_requestId s)
                   \<lparr>m_request = DataPayload
                      \<lparr>q_device = fst ep, q_endpointId = e_id e, q_clusterId = clusterId,
                       q_data =
                         [FC_SERVER_TO_CLIENT OR FC_DISABLE_DEFAULT_RESPONSE, tid,
                          CMD_READ_ATTRIBUTES_RESPONSE H]
                         @ concat (map (attributeRecord H now clusterId) attributes),
                       q_name = []\<rparr>,
                    m_type = Data, m_status = Pending\<rparr> (m_requests s),
                 True, store s)
       \<and> attributeRecord H now CLUSTER_TIME 0x0000
         = [0x00, 0x00, 0x00, 0xE2] @ toLittleEndian32 (toTime_t now - 946684800)
       \<and> (attributeId \<noteq> 0x0000 \<and> attributeId \<noteq> 0x0002 \<and> attributeId \<noteq> 0x0007 \<longrightarrow>
            attributeRecord H now CLUSTER_TIME attributeId
            = toLittleEndian16 attributeId @ [STATUS_UNSUPPORTED_ATTRIBUTE H])"
proof -
  have hdr: "zclHeader (FC_SERVER_TO_CLIENT OR FC_DISABLE_DEFAULT_RESPONSE) tid
               (CMD_READ_ATTRIBUTES_RESPONSE H) 0
             = [FC_SERVER_TO_CLIENT OR FC_DISABLE_DEFAULT_RESPONSE, tid,
                CMD_READ_ATTRIBUTES_RESPONSE H]"
    by (simp add: zclHeader_def FC_SERVER_TO_CLIENT_def FC_DISABLE_DEFAULT_RESPONSE_def
        FC_MANUFACTURER_SPECIFIC_def)
  from assms(4) have "length ([] :: QByteArray) + 2 * length attributes \<le> 254"
    by simp
  from readAttributes_records [of 0 "[]", OF _ this] have loop:
    "readAttributes H now clusterId (concat (map toLittleEndian16 attributes)) 0 request
     = Some (request @ concat (map (attributeRecord H now clusterId) attributes))"
    for request
    by simp
  have result: "globalCommandReceived H A now ep clusterId tid (CMD_READ_ATTRIBUTES H)
           (concat (map toLittleEndian16 attributes)) s
         = Some (enqueueDataRequest (fst ep) (e_id e) clusterId
                   ([FC_SERVER_TO_CLIENT OR FC_DISABLE_DEFAULT_RESPONSE, tid,
                     CMD_READ_ATTRIBUTES_RESPONSE H]
                    @ concat (map (attributeRecord H now clusterId) attributes)) [] s)"
    using assms(1,2,3) by (simp add: globalCommandReceived_def Let_def loop hdr)
  have table: "map_option (\<lambda>s'. (m_requests s', m_requestTimer s', store s'))
           (globalCommandReceived H A now ep clusterId tid (CMD_READ_ATTRIBUTES H)
              (concat (map toLittleEndian16 attributes)) s)
         = Some (qmap_insert (m_requestId s)
                   \<lparr>m_request = DataPayload
                      \<lparr>q_device = fst ep, q_endpointId = e_id e, q_clusterId = clusterId,
                       q_data =
                         [FC_SERVER_TO_CLIENT OR FC_DISABLE_DEFAULT_RESPONSE, tid,
                          CMD_READ_ATTRIBUTES_RESPONSE H]
                         @ concat (map (attributeRecord H now clusterId) attributes),
                       q_name = []\<rparr>,
                    m_type = Data, m_status = Pending\<rparr> (m_requests s),
                 True, store s)"
    unfolding result by (simp only: option.map enqueueDataRequest_table store_enqueueDataRequest)
  have utc: "attributeRecord H now CLUSTER_TIME 0x0000
         = [0x00, 0x00, 0x00, 0xE2] @ toLittleEndian32 (toTime_t now - 946684800)"
    by (simp add: attributeRecord_def toLittleEndian16_def)
  have other: "attributeId \<noteq> 0x0000 \<and> attributeId \<noteq> 0x0002 \<and> attributeId \<noteq> 0x0007 \<longrightarrow>
            attributeRecord H now CLUSTER_TIME attributeId
            = toLittleEndian16 attributeId @ [STATUS_UNSUPPORTED_ATTRIBUTE H]"
    by (simp add: attributeRecord_def)
  from result table utc other show ?thesis
    by blast
qed

theorem readAttributes_time_response_witness:
  "map_option (\<lambda>s. (m_requests s, m_requestTimer s, trace s))
     (globalCommandReceived zcl (adapter True) \<lparr>toTime_t = 1700000000, offsetFromUtc = 3600\<rparr>
        (0, 0x01) 0x000A 0x7E 0x00 [0x00, 0x00, 0x05, 0x00] example_state)
   = Some ([(0x00,
             \<lparr>m_request = DataPayload
                \<lparr>q_device = 0, q_endpointId = 0x01, q_clusterId = 0x000A,
                 q_data = [0x18, 0x7E, 0x01,
                           0x00, 0x00, 0x00, 0xE2, 0x80, 0xAD, 0xE6, 0x2C,
                           0x05, 0x00, 0x86],
                 q_name = []\<rparr>,
              m_type = Data, m_status = Pending\<rparr>)],
           True,
           [Enqueued 0x00
              \<lparr>m_request = DataPayload
                 \<lparr>q_device = 0, q_endpointId = 0x01, q_clusterId = 0x000A,
                  q_data = [0x18, 0x7E, 0x01,
                            0x00, 0x00, 0x00, 0xE2, 0x80, 0xAD, 0xE6, 0x2C,
                            0x05, 0x00, 0x86],
                  q_name = []\<rparr>,
               m_type = Data, m_status = Pending\<rparr>])"
proof -
  let ?e = "(EndpointObject_new 0x01)
              \<lparr>properties := [\<lparr>kind = Status, m_name = ''status'', m_clusterId = 0x0006,
                                m_value = Invalid\<rparr>]\<rparr>"
  let ?now = "\<lparr>toTime_t = 1700000000, offsetFromUtc = 3600\<rparr>"
  have ep: "endpointOf example_state (0, 0x01) = Some ?e"
    by (simp add: endpointOf_def example_defs)
  have d1: "CMD_READ_ATTRIBUTES zcl \<noteq> CMD_CONFIGURE_REPORTING_RESPONSE zcl"
    by (simp add: zcl_fields)
  have d2: "CMD_READ_ATTRIBUTES zcl \<noteq> CMD_DEFAULT_RESPONSE zcl"
    by (simp add: zcl_fields)
  have n: "length [0x0000, 0x0005 :: 16 word] \<le> 127"
    by simp
  have payload: "concat (map toLittleEndian16 [0x0000, 0x0005]) = [0x00, 0x00, 0x05, 0x00]"
    by (simp add: toLittleEndian16_def)
  have records: "concat (map (attributeRecord zcl ?now 0x000A) [0x0000, 0x0005])
                 = [0x00, 0x00, 0x00, 0xE2, 0x80, 0xAD, 0xE6, 0x2C, 0x05, 0x00, 0x86]"
    by (simp add: attributeRecord_def CLUSTER_TIME_def toLittleEndian16_def
        toLittleEndian32_def zcl_fields)
  have tables: "m_requests example_state = []" "m_requestId example_state = 0"
    "trace example_state = []"
    by (simp_all add: example_defs)
  from readAttributes_time_response [OF d1 d2 ep n, of "adapter True" ?now "0x000A" "0x7E"]
  show ?thesis
    unfolding payload records
    by (simp add: zcl_fields EndpointObject_new_def FC_SERVER_TO_CLIENT_def
        FC_DISABLE_DEFAULT_RESPONSE_def enqueueDataRequest_table tables)
qed

subsection \<open>Default Response\<close>

lemma extends_refl [simp]: "extends P s s"
  by (simp add: extends_def)





lemma requestOf_signals [simp]:
  "requestOf (DeviceEvent d n) = (\<lambda>m. m)"
  "requestOf (EndpointUpdated d k) = (\<lambda>m. m)"
  "requestOf StoreDatabase = (\<lambda>m. m)"
  "requestOf StoreProperties = (\<lambda>m. m)"
  by (simp_all add: fun_eq_iff)






lemma extends_upd_device [simp]:
  "extends P s (upd_device d f s') = extends P s s'"
  by (simp add: extends_def)

lemma fields_upd_endpoint [simp]:
  "trace (upd_endpoint ep f s) = trace s"
  "m_requests (upd_endpoint ep f s) = m_requests s"
  by (simp_all add: upd_endpoint_def)

lemma extends_upd_endpoint [simp]:
  "extends P s (upd_endpoint ep f s') = extends P s s'"
  by (simp add: extends_def)





lemma fields_setupDevice [simp]:
  "trace (setupDevice H d s) = trace s"
  "m_requests (setupDevice H d s) = m_requests s"
  by (simp_all add: setupDevice_def)










subsection \<open>Endpoints stay\<close>



lemma map_fst_qmap_update: "map fst (qmap_update k f m) = map fst m"
  by (induction m) auto

lemma endpointIds_upd_endpoint [simp]: "endpointIds (upd_endpoint ep f s) x = endpointIds s x"
  by (simp add: endpointIds_def upd_endpoint_def map_fst_qmap_update)

lemma endpointIds_same: "store s' = store s \<Longrightarrow> endpointIds s' x = endpointIds s x"
  by (simp add: endpointIds_def)

lemma endpointIds_upd_device:
  "endpoints (f (store s d)) = endpoints (store s d)
   \<Longrightarrow> endpointIds (upd_device d f s) x = endpointIds s x"
  by (simp add: endpointIds_def)

lemma endpointIds_interviewDevice [simp]: "endpointIds (interviewDevice d s) x = endpointIds s x"
  by (simp add: endpointIds_def interviewDevice_def)

lemma endpointIds_basicInterview [simp]: "endpointIds (basicInterview d a s) x = endpointIds s x"
  by (simp add: basicInterview_def Let_def endpointIds_upd_device)

lemma endpointIds_ZigBee_interviewFinished [simp]:
  "endpointIds (ZigBee_interviewFinished H d s) x = endpointIds s x"
  by (simp add: endpointIds_def endpoints_ZigBee_interviewFinished setupDevice_def split_def
      comp_def)







lemma fields_DeviceList_endpoint [simp]:
  "trace (DeviceList_endpoint d e s) = trace s"
  "m_requests (DeviceList_endpoint d e s) = m_requests s"
  by (simp_all add: DeviceList_endpoint_def split: option.splits)


lemma endpointOf_emit [simp]: "endpointOf (emit e s) ep = endpointOf s ep"
  by (simp add: endpointOf_def)




















end
